theory Spec2Isabelle
  imports Complex_Main
begin

section \<open>Pressure-based incompressible flux kernels of SU2\<close>

text \<open>
  The kernels of \<^verbatim>\<open>numerics_direct_mean_inc.cpp\<close>: \<^verbatim>\<open>CUpwPB_Flow\<close>,
  \<^verbatim>\<open>CCentJSTPB_Flow\<close>, \<^verbatim>\<open>CCentLaxPB_Flow\<close> and \<^verbatim>\<open>CPressureSource\<close>, each with its
  constructor and its \<^verbatim>\<open>ComputeResidual\<close>.

  Numbers. \<^verbatim>\<open>su2double\<close> is modelled by the real numbers: sums, products, \<^verbatim>\<open>fabs\<close> and
  \<^verbatim>\<open>max\<close> are exact, rounding and overflow are not modelled. The two operations of the
  kernels whose IEEE result is not a finite number are results of a sum type: a
  quotient by zero (\<open>\<plusminus>inf\<close> or NaN in the program, which then reaches every residual
  component) is \<open>Inl DivisionByZero\<close>, and \<^verbatim>\<open>pow\<close> of a negative base to the exponent
  \<^verbatim>\<open>Param_p\<close> (NaN in the program) is \<open>Inl PowDomain\<close>.

  Arrays. A \<^verbatim>\<open>su2double*\<close> is a list, a \<^verbatim>\<open>su2double**\<close> a list of rows; a write
  \<^verbatim>\<open>a[i] = v\<close> is \<open>a[i := v]\<close>. The program checks no index; the theorems below are
  stated for arrays of the sizes the callers allocate.
\<close>

type_synonym su2double = real

datatype fp_error = DivisionByZero | PowDomain

definition su2_div :: "su2double \<Rightarrow> su2double \<Rightarrow> fp_error + su2double" where
  "su2_div a b = (if b = 0 then Inl DivisionByZero else Inr (a / b))"

text \<open>
  \<^verbatim>\<open>pow(x, p)\<close> for an exponent that is positive and not an integer, as the value 0.3
  that every constructor stores in \<^verbatim>\<open>Param_p\<close> is: NaN below zero, 0 at zero.
\<close>

definition su2_pow :: "su2double \<Rightarrow> su2double \<Rightarrow> fp_error + su2double" where
  "su2_pow x p = (if x < 0 then Inl PowDomain else Inr (x powr p))"

definition bind_err :: "fp_error + 'a \<Rightarrow> ('a \<Rightarrow> fp_error + 'b) \<Rightarrow> fp_error + 'b" where
  "bind_err m g = (case m of Inl e \<Rightarrow> Inl e | Inr x \<Rightarrow> g x)"

text \<open>The loop \<^verbatim>\<open>for (i = 0; i < n; i++) body\<close> over a state \<open>s\<close>.\<close>

definition for_upto :: "nat \<Rightarrow> (nat \<Rightarrow> 's \<Rightarrow> 's) \<Rightarrow> 's \<Rightarrow> 's" where
  "for_upto n body s = fold body [0..<n] s"

subsection \<open>Configuration, kernel members and per-face inputs\<close>

text \<open>
  Modelled from the spec: the enumeration of time integration schemes and the class
  \<^verbatim>\<open>CConfig\<close> are declared in headers that are not among the sources. The spec
  (section 3) has the configuration supply whether the time integration is implicit,
  the gravity flag, the Froude number and the dissipation constants; the model keeps
  the enumeration values the constructors compare with and, of \<^verbatim>\<open>CConfig\<close>, one field
  for each getter the constructors call.
\<close>

datatype ENUM_TIME_INT =
  RUNGE_KUTTA_EXPLICIT | EULER_EXPLICIT | EULER_IMPLICIT | CLASSICAL_RK4_EXPLICIT

record CConfig =
  GetKind_TimeIntScheme_Flow :: ENUM_TIME_INT
  GetGravityForce :: bool
  GetFroude :: su2double
  GetGrid_Movement :: bool
  GetKappa_1st_Flow :: su2double
  GetKappa_2nd_Flow :: su2double
  GetKappa_4th_Flow :: su2double

text \<open>What the base constructor \<^verbatim>\<open>CNumerics(val_nDim, val_nVar, config)\<close> stores.\<close>

record CNumerics =
  nDim :: nat
  nVar :: nat

text \<open>
  The members of \<^verbatim>\<open>CNumerics\<close> that the caller sets before each call: the primitive
  states \<^verbatim>\<open>V_i\<close>, \<^verbatim>\<open>V_j\<close> laid out as pressure, the \<^verbatim>\<open>nDim\<close> velocities, density; the
  conservative states; the face normal; the undivided Laplacians, the sensors, the
  spectral radii \<^verbatim>\<open>Lambda_i\<close>, \<^verbatim>\<open>Lambda_j\<close> and the (unsigned) neighbour counts.
\<close>

record face =
  V_i :: "su2double list"
  V_j :: "su2double list"
  U_i :: "su2double list"
  U_j :: "su2double list"
  Normal :: "su2double list"
  Und_Lapl_i :: "su2double list"
  Und_Lapl_j :: "su2double list"
  Sensor_i :: su2double
  Sensor_j :: su2double
  Lambda_i :: su2double
  Lambda_j :: su2double
  Neighbor_i :: nat
  Neighbor_j :: nat

record CUpwPB_Flow = CNumerics +
  implicit :: bool
  gravity :: bool
  Froude :: su2double

record CCentJSTPB_Flow = CNumerics +
  grid_movement :: bool
  implicit :: bool
  gravity :: bool
  Froude :: su2double
  Param_p :: su2double
  Param_Kappa_2 :: su2double
  Param_Kappa_4 :: su2double

record CCentLaxPB_Flow = CNumerics +
  implicit :: bool
  grid_movement :: bool
  gravity :: bool
  Froude :: su2double
  Param_p :: su2double
  Param_Kappa_0 :: su2double

text \<open>
  The arrays a call writes: \<^verbatim>\<open>val_residual\<close> and the two Jacobians, passed in by the
  caller and returned updated (the two matrices are distinct objects).
\<close>

record outputs =
  val_residual :: "su2double list"
  val_Jacobian_i :: "su2double list list"
  val_Jacobian_j :: "su2double list list"

subsection \<open>Constructors\<close>

definition CUpwPB_Flow :: "nat \<Rightarrow> nat \<Rightarrow> CConfig \<Rightarrow> CUpwPB_Flow" where
  "CUpwPB_Flow val_nDim val_nVar config =
     \<lparr>nDim = val_nDim, nVar = val_nVar,
      CUpwPB_Flow.implicit = (GetKind_TimeIntScheme_Flow config = EULER_IMPLICIT),
      CUpwPB_Flow.gravity = GetGravityForce config,
      CUpwPB_Flow.Froude = GetFroude config\<rparr>"

definition CCentJSTPB_Flow :: "nat \<Rightarrow> nat \<Rightarrow> CConfig \<Rightarrow> CCentJSTPB_Flow" where
  "CCentJSTPB_Flow val_nDim val_nVar config =
     \<lparr>nDim = val_nDim, nVar = val_nVar,
      CCentJSTPB_Flow.grid_movement = GetGrid_Movement config,
      CCentJSTPB_Flow.implicit = (GetKind_TimeIntScheme_Flow config = EULER_IMPLICIT),
      CCentJSTPB_Flow.gravity = GetGravityForce config,
      CCentJSTPB_Flow.Froude = GetFroude config,
      CCentJSTPB_Flow.Param_p = 0.3,
      Param_Kappa_2 = GetKappa_2nd_Flow config,
      Param_Kappa_4 = GetKappa_4th_Flow config\<rparr>"

definition CCentLaxPB_Flow :: "nat \<Rightarrow> nat \<Rightarrow> CConfig \<Rightarrow> CCentLaxPB_Flow" where
  "CCentLaxPB_Flow val_nDim val_nVar config =
     \<lparr>nDim = val_nDim, nVar = val_nVar,
      CCentLaxPB_Flow.implicit = (GetKind_TimeIntScheme_Flow config = EULER_IMPLICIT),
      CCentLaxPB_Flow.grid_movement = GetGrid_Movement config,
      CCentLaxPB_Flow.gravity = GetGravityForce config,
      CCentLaxPB_Flow.Froude = GetFroude config,
      CCentLaxPB_Flow.Param_p = 0.3,
      Param_Kappa_0 = GetKappa_1st_Flow config\<rparr>"

definition CPressureSource :: "nat \<Rightarrow> nat \<Rightarrow> CConfig \<Rightarrow> CNumerics" where
  "CPressureSource val_nDim val_nVar config = \<lparr>nDim = val_nDim, nVar = val_nVar\<rparr>"

subsection \<open>Projected flux and its Jacobian\<close>

text \<open>
  Modelled from the spec: \<^verbatim>\<open>CNumerics::GetInviscidPBProjFlux\<close> is defined in
  \<^verbatim>\<open>numerics_structure.cpp\<close>, which is not among the sources. The spec (4.1):
  flux component \<open>k\<close> equals
  \<open>density * velocity[k] * (velocity \<cdot> normal) + pressure * normal[k]\<close>.
\<close>

definition GetInviscidPBProjFlux ::
  "nat \<Rightarrow> su2double \<Rightarrow> su2double list \<Rightarrow> su2double \<Rightarrow> su2double list \<Rightarrow> su2double list" where
  "GetInviscidPBProjFlux n val_density val_velocity val_pressure val_normal =
     (let proj_vel = for_upto n (\<lambda>iDim acc. acc + val_velocity ! iDim * val_normal ! iDim) 0
      in map (\<lambda>k. val_density * val_velocity ! k * proj_vel + val_pressure * val_normal ! k)
           [0..<n])"

text \<open>
  Modelled from the spec: \<^verbatim>\<open>CNumerics::GetInviscidPBProjJac\<close> is defined in
  \<^verbatim>\<open>numerics_structure.cpp\<close>, which is not among the sources. The spec (4.1): the
  linearization of the projected flux with respect to the velocity unknowns, scaled by
  \<open>scale\<close>; entry \<open>(k, l)\<close> is the derivative of flux component \<open>k\<close> above by
  \<open>velocity[l]\<close>, written into the \<open>n \<times> n\<close> block of the matrix passed in.
\<close>

definition GetInviscidPBProjJac ::
  "nat \<Rightarrow> su2double \<Rightarrow> su2double list \<Rightarrow> su2double list \<Rightarrow> su2double
     \<Rightarrow> su2double list list \<Rightarrow> su2double list list" where
  "GetInviscidPBProjJac n val_density val_velocity val_normal val_scale val_Proj_Jac_Tensor =
     (let proj_vel = for_upto n (\<lambda>iDim acc. acc + val_velocity ! iDim * val_normal ! iDim) 0
      in for_upto n (\<lambda>k J. for_upto n (\<lambda>l J.
           J[k := (J ! k)[l := val_scale * val_density *
                    ((if k = l then proj_vel else 0) + val_velocity ! k * val_normal ! l)]]) J)
           val_Proj_Jac_Tensor)"

subsection \<open>Quantities every kernel computes from the face\<close>

definition Velocity_i :: "nat \<Rightarrow> face \<Rightarrow> su2double list" where
  "Velocity_i n f = map (\<lambda>iDim. V_i f ! (iDim + 1)) [0..<n]"

definition Velocity_j :: "nat \<Rightarrow> face \<Rightarrow> su2double list" where
  "Velocity_j n f = map (\<lambda>iDim. V_j f ! (iDim + 1)) [0..<n]"

definition MeanVelocity :: "nat \<Rightarrow> face \<Rightarrow> su2double list" where
  "MeanVelocity n f = map (\<lambda>iDim. 0.5 * (Velocity_i n f ! iDim + Velocity_j n f ! iDim)) [0..<n]"

definition DensityInc_i :: "nat \<Rightarrow> face \<Rightarrow> su2double" where
  "DensityInc_i n f = V_i f ! (n + 1)"

definition DensityInc_j :: "nat \<Rightarrow> face \<Rightarrow> su2double" where
  "DensityInc_j n f = V_j f ! (n + 1)"

definition Pressure_i :: "face \<Rightarrow> su2double" where
  "Pressure_i f = V_i f ! 0"

definition Pressure_j :: "face \<Rightarrow> su2double" where
  "Pressure_j f = V_j f ! 0"

definition MeanDensity :: "nat \<Rightarrow> face \<Rightarrow> su2double" where
  "MeanDensity n f = 0.5 * (DensityInc_i n f + DensityInc_j n f)"

definition MeanPressure :: "face \<Rightarrow> su2double" where
  "MeanPressure f = 0.5 * (Pressure_i f + Pressure_j f)"

subsection \<open>CUpwPB\_Flow::ComputeResidual\<close>

text \<open>
  The first loop of the method fills \<^verbatim>\<open>Velocity_i\<close>, \<^verbatim>\<open>Velocity_j\<close>, \<^verbatim>\<open>MeanVelocity\<close> and
  \<^verbatim>\<open>MeanDensity\<close> and accumulates \<^verbatim>\<open>Face_Flux\<close>; in implicit mode both Jacobians are
  zeroed before the donor side receives the projected Jacobian.
\<close>

definition Face_Flux :: "nat \<Rightarrow> face \<Rightarrow> su2double" where
  "Face_Flux n f =
     for_upto n (\<lambda>iDim acc. acc + MeanDensity n f * MeanVelocity n f ! iDim * Normal f ! iDim) 0"

definition CUpwPB_Flow_ComputeResidual :: "CUpwPB_Flow \<Rightarrow> face \<Rightarrow> outputs \<Rightarrow> outputs" where
  "CUpwPB_Flow_ComputeResidual k f out =
     (let res =
        (if Face_Flux (nDim k) f > 0
         then for_upto (nVar k)
                (\<lambda>iVar r. r[iVar := Face_Flux (nDim k) f * V_i f ! (iVar + 1)]) (val_residual out)
         else for_upto (nVar k)
                (\<lambda>iVar r. r[iVar := Face_Flux (nDim k) f * V_j f ! (iVar + 1)]) (val_residual out))
      in if CUpwPB_Flow.implicit k then
           (let Jj0 = for_upto (nVar k) (\<lambda>iVar J. for_upto (nVar k) (\<lambda>jVar J.
                        J[iVar := (J ! iVar)[jVar := 0]]) J) (val_Jacobian_j out);
                Ji0 = for_upto (nVar k) (\<lambda>iVar J. for_upto (nVar k) (\<lambda>jVar J.
                        J[iVar := (J ! iVar)[jVar := 0]]) J) (val_Jacobian_i out)
            in if Face_Flux (nDim k) f > 0
               then \<lparr>val_residual = res,
                     val_Jacobian_i = GetInviscidPBProjJac (nDim k) (DensityInc_i (nDim k) f)
                                        (Velocity_i (nDim k) f) (Normal f) 1 Ji0,
                     val_Jacobian_j = Jj0\<rparr>
               else \<lparr>val_residual = res,
                     val_Jacobian_i = Ji0,
                     val_Jacobian_j = GetInviscidPBProjJac (nDim k) (DensityInc_j (nDim k) f)
                                        (Velocity_j (nDim k) f) (Normal f) 1 Jj0\<rparr>)
         else \<lparr>val_residual = res,
               val_Jacobian_i = val_Jacobian_i out,
               val_Jacobian_j = val_Jacobian_j out\<rparr>)"

subsection \<open>CPressureSource::ComputeResidual\<close>

text \<open>The method takes the residual and one Jacobian; both are returned.\<close>

definition CPressureSource_ComputeResidual ::
  "CNumerics \<Rightarrow> face \<Rightarrow> su2double list \<times> su2double list list
     \<Rightarrow> su2double list \<times> su2double list list" where
  "CPressureSource_ComputeResidual k f out =
     (for_upto (nDim k) (\<lambda>iDim r. r[iDim := MeanPressure f * Normal f ! iDim]) (fst out),
      snd out)"

subsection \<open>The local spectral radius and the stretching factor\<close>

text \<open>
  The block that \<^verbatim>\<open>CCentJSTPB_Flow::ComputeResidual\<close> and
  \<^verbatim>\<open>CCentLaxPB_Flow::ComputeResidual\<close> share word for word. \<^verbatim>\<open>Area\<close>, \<^verbatim>\<open>sq_vel_i\<close> and
  \<^verbatim>\<open>sq_vel_j\<close> are computed there too and never read. \<^verbatim>\<open>Phi_i\<close> and \<^verbatim>\<open>Phi_j\<close> read the members \<^verbatim>\<open>Lambda_i\<close> and
  \<^verbatim>\<open>Lambda_j\<close>, not \<^verbatim>\<open>Local_Lambda_i\<close> and \<^verbatim>\<open>Local_Lambda_j\<close>. The statements run in the
  order of the source, so the first operation without a finite result decides the
  error.
\<close>

definition ProjVelocity_i :: "nat \<Rightarrow> face \<Rightarrow> su2double" where
  "ProjVelocity_i n f = for_upto n (\<lambda>iDim acc. acc + Velocity_i n f ! iDim * Normal f ! iDim) 0"

definition ProjVelocity_j :: "nat \<Rightarrow> face \<Rightarrow> su2double" where
  "ProjVelocity_j n f = for_upto n (\<lambda>iDim acc. acc + Velocity_j n f ! iDim * Normal f ! iDim) 0"

definition Local_Lambda_i :: "nat \<Rightarrow> face \<Rightarrow> su2double" where
  "Local_Lambda_i n f = \<bar>2 * ProjVelocity_i n f\<bar>"

definition Local_Lambda_j :: "nat \<Rightarrow> face \<Rightarrow> su2double" where
  "Local_Lambda_j n f = \<bar>2 * ProjVelocity_j n f\<bar>"

definition MeanLambda :: "nat \<Rightarrow> face \<Rightarrow> su2double" where
  "MeanLambda n f = 0.5 * (Local_Lambda_i n f + Local_Lambda_j n f)"

definition Phi_i :: "nat \<Rightarrow> su2double \<Rightarrow> face \<Rightarrow> fp_error + su2double" where
  "Phi_i n p f = bind_err (su2_div (Lambda_i f) (4 * MeanLambda n f)) (\<lambda>q. su2_pow q p)"

definition Phi_j :: "nat \<Rightarrow> su2double \<Rightarrow> face \<Rightarrow> fp_error + su2double" where
  "Phi_j n p f = bind_err (su2_div (Lambda_j f) (4 * MeanLambda n f)) (\<lambda>q. su2_pow q p)"

definition StretchingFactor :: "nat \<Rightarrow> su2double \<Rightarrow> face \<Rightarrow> fp_error + su2double" where
  "StretchingFactor n p f =
     bind_err (Phi_i n p f) (\<lambda>phi_i.
     bind_err (Phi_j n p f) (\<lambda>phi_j.
     su2_div (4 * phi_i * phi_j) (phi_i + phi_j)))"

text \<open>
  The neighbour scaling, \<^verbatim>\<open>sc2\<close> in the JST kernel and \<^verbatim>\<open>sc0\<close> in the Lax kernel: the
  same expression, the counts converted to \<^verbatim>\<open>su2double\<close> before the division.
\<close>

definition sc2 :: "face \<Rightarrow> fp_error + su2double" where
  "sc2 f = su2_div (3 * (real (Neighbor_i f) + real (Neighbor_j f)))
                   (real (Neighbor_i f) * real (Neighbor_j f))"

definition sc0 :: "face \<Rightarrow> fp_error + su2double" where
  "sc0 f = su2_div (3 * (real (Neighbor_i f) + real (Neighbor_j f)))
                   (real (Neighbor_i f) * real (Neighbor_j f))"

subsection \<open>CCentJSTPB\_Flow::ComputeResidual\<close>

text \<open>The central flux step: the residual and, in implicit mode, both Jacobians.\<close>

definition CCentJSTPB_Flow_central :: "CCentJSTPB_Flow \<Rightarrow> face \<Rightarrow> outputs \<Rightarrow> outputs" where
  "CCentJSTPB_Flow_central k f out =
     (let ProjFlux = GetInviscidPBProjFlux (nDim k) (MeanDensity (nDim k) f)
                       (MeanVelocity (nDim k) f) (MeanPressure f) (Normal f);
          res = for_upto (nVar k) (\<lambda>iVar r. r[iVar := ProjFlux ! iVar]) (val_residual out)
      in if CCentJSTPB_Flow.implicit k then
           (let Ji = GetInviscidPBProjJac (nDim k) (MeanDensity (nDim k) f)
                       (MeanVelocity (nDim k) f) (Normal f) 0.5 (val_Jacobian_i out);
                Jj = for_upto (nVar k) (\<lambda>iVar J. for_upto (nVar k) (\<lambda>jVar J.
                       J[iVar := (J ! iVar)[jVar := Ji ! iVar ! jVar]]) J) (val_Jacobian_j out)
            in \<lparr>val_residual = res, val_Jacobian_i = Ji, val_Jacobian_j = Jj\<rparr>)
         else \<lparr>val_residual = res,
               val_Jacobian_i = val_Jacobian_i out,
               val_Jacobian_j = val_Jacobian_j out\<rparr>)"

definition Epsilon_2 :: "CCentJSTPB_Flow \<Rightarrow> face \<Rightarrow> su2double \<Rightarrow> su2double" where
  "Epsilon_2 k f sc = Param_Kappa_2 k * 0.5 * (Sensor_i f + Sensor_j f) * sc"

definition Epsilon_4 :: "CCentJSTPB_Flow \<Rightarrow> face \<Rightarrow> su2double \<Rightarrow> su2double" where
  "Epsilon_4 k f sc = max 0 (Param_Kappa_4 k - Epsilon_2 k f sc) * (sc * sc / 4)"

text \<open>
  The dissipation step, on the outputs of the central flux step. The source updates the
  two diagonals in one loop; the matrices being distinct, the model runs one loop for
  each. In \<^verbatim>\<open>su2double(Neighbor_i+1)\<close> the sum is computed in \<^verbatim>\<open>int\<close> and cannot wrap.
\<close>

definition CCentJSTPB_Flow_dissipation ::
  "CCentJSTPB_Flow \<Rightarrow> face \<Rightarrow> outputs \<Rightarrow> fp_error + outputs" where
  "CCentJSTPB_Flow_dissipation k f out =
     (let Diff_Lapl = map (\<lambda>iVar. Und_Lapl_i f ! iVar - Und_Lapl_j f ! iVar) [0..<nVar k];
          Diff_U = map (\<lambda>iVar. U_i f ! iVar - U_j f ! iVar) [0..<nVar k]
      in bind_err (StretchingFactor (nDim k) (CCentJSTPB_Flow.Param_p k) f) (\<lambda>stretch.
         bind_err (sc2 f) (\<lambda>sc.
           (let res = for_upto (nVar k) (\<lambda>iVar r. r[iVar := r ! iVar +
                        (Epsilon_2 k f sc * Diff_U ! iVar - Epsilon_4 k f sc * Diff_Lapl ! iVar)
                          * stretch * MeanLambda (nDim k) f]) (val_residual out)
            in if CCentJSTPB_Flow.implicit k then
                 (let cte_0 = (Epsilon_2 k f sc + Epsilon_4 k f sc * real (Neighbor_i f + 1))
                                * stretch * MeanLambda (nDim k) f;
                      cte_1 = (Epsilon_2 k f sc + Epsilon_4 k f sc * real (Neighbor_j f + 1))
                                * stretch * MeanLambda (nDim k) f
                  in Inr \<lparr>val_residual = res,
                          val_Jacobian_i = for_upto (nVar k) (\<lambda>iVar J.
                            J[iVar := (J ! iVar)[iVar := J ! iVar ! iVar + cte_0]])
                            (val_Jacobian_i out),
                          val_Jacobian_j = for_upto (nVar k) (\<lambda>iVar J.
                            J[iVar := (J ! iVar)[iVar := J ! iVar ! iVar - cte_1]])
                            (val_Jacobian_j out)\<rparr>)
               else Inr \<lparr>val_residual = res,
                         val_Jacobian_i = val_Jacobian_i out,
                         val_Jacobian_j = val_Jacobian_j out\<rparr>))))"

definition CCentJSTPB_Flow_ComputeResidual ::
  "CCentJSTPB_Flow \<Rightarrow> face \<Rightarrow> outputs \<Rightarrow> fp_error + outputs" where
  "CCentJSTPB_Flow_ComputeResidual k f out =
     CCentJSTPB_Flow_dissipation k f (CCentJSTPB_Flow_central k f out)"

subsection \<open>CCentLaxPB\_Flow::ComputeResidual\<close>

text \<open>
  The method declares its own \<^verbatim>\<open>U_i[3]\<close> and \<^verbatim>\<open>U_j[3]\<close>, zero filled, and recomputes the
  conservative variables into them; the members of the same name are not read.
\<close>

definition Lax_U_i :: "nat \<Rightarrow> face \<Rightarrow> su2double list" where
  "Lax_U_i n f =
     for_upto n (\<lambda>iDim U. U[iDim := DensityInc_i n f * Velocity_i n f ! iDim]) [0, 0, 0]"

definition Lax_U_j :: "nat \<Rightarrow> face \<Rightarrow> su2double list" where
  "Lax_U_j n f =
     for_upto n (\<lambda>iDim U. U[iDim := DensityInc_j n f * Velocity_j n f ! iDim]) [0, 0, 0]"

definition CCentLaxPB_Flow_central :: "CCentLaxPB_Flow \<Rightarrow> face \<Rightarrow> outputs \<Rightarrow> outputs" where
  "CCentLaxPB_Flow_central k f out =
     (let ProjFlux = GetInviscidPBProjFlux (nDim k) (MeanDensity (nDim k) f)
                       (MeanVelocity (nDim k) f) (MeanPressure f) (Normal f);
          res = for_upto (nVar k) (\<lambda>iVar r. r[iVar := ProjFlux ! iVar]) (val_residual out)
      in if CCentLaxPB_Flow.implicit k then
           (let Ji = GetInviscidPBProjJac (nDim k) (MeanDensity (nDim k) f)
                       (MeanVelocity (nDim k) f) (Normal f) 0.5 (val_Jacobian_i out);
                Jj = for_upto (nVar k) (\<lambda>iVar J. for_upto (nVar k) (\<lambda>jVar J.
                       J[iVar := (J ! iVar)[jVar := Ji ! iVar ! jVar]]) J) (val_Jacobian_j out)
            in \<lparr>val_residual = res, val_Jacobian_i = Ji, val_Jacobian_j = Jj\<rparr>)
         else \<lparr>val_residual = res,
               val_Jacobian_i = val_Jacobian_i out,
               val_Jacobian_j = val_Jacobian_j out\<rparr>)"

definition Epsilon_0 :: "CCentLaxPB_Flow \<Rightarrow> su2double \<Rightarrow> su2double" where
  "Epsilon_0 k sc = Param_Kappa_0 k * sc * real (nDim k) / 3"

definition CCentLaxPB_Flow_dissipation ::
  "CCentLaxPB_Flow \<Rightarrow> face \<Rightarrow> outputs \<Rightarrow> fp_error + outputs" where
  "CCentLaxPB_Flow_dissipation k f out =
     (let Diff_U = map (\<lambda>iVar. Lax_U_i (nDim k) f ! iVar - Lax_U_j (nDim k) f ! iVar)
                     [0..<nVar k]
      in bind_err (StretchingFactor (nDim k) (CCentLaxPB_Flow.Param_p k) f) (\<lambda>stretch.
         bind_err (sc0 f) (\<lambda>sc.
           (let res = for_upto (nVar k) (\<lambda>iVar r. r[iVar := r ! iVar +
                        Epsilon_0 k sc * Diff_U ! iVar * stretch * MeanLambda (nDim k) f])
                        (val_residual out)
            in if CCentLaxPB_Flow.implicit k then
                 Inr \<lparr>val_residual = res,
                      val_Jacobian_i = for_upto (nVar k) (\<lambda>iVar J.
                        J[iVar := (J ! iVar)[iVar := J ! iVar ! iVar +
                          Epsilon_0 k sc * stretch * MeanLambda (nDim k) f]])
                        (val_Jacobian_i out),
                      val_Jacobian_j = for_upto (nVar k) (\<lambda>iVar J.
                        J[iVar := (J ! iVar)[iVar := J ! iVar ! iVar -
                          Epsilon_0 k sc * stretch * MeanLambda (nDim k) f]])
                        (val_Jacobian_j out)\<rparr>
               else Inr \<lparr>val_residual = res,
                         val_Jacobian_i = val_Jacobian_i out,
                         val_Jacobian_j = val_Jacobian_j out\<rparr>))))"

definition CCentLaxPB_Flow_ComputeResidual ::
  "CCentLaxPB_Flow \<Rightarrow> face \<Rightarrow> outputs \<Rightarrow> fp_error + outputs" where
  "CCentLaxPB_Flow_ComputeResidual k f out =
     CCentLaxPB_Flow_dissipation k f (CCentLaxPB_Flow_central k f out)"

subsection \<open>Array sizes of a call\<close>

text \<open>
  The sizes the solver allocates: \<^verbatim>\<open>nVar\<close> equals \<^verbatim>\<open>nDim\<close> (momentum components
  only) and is at most 3, a primitive state holds \<^verbatim>\<open>nDim + 2\<close> numbers, the normal
  \<^verbatim>\<open>nDim\<close>, every other vector \<^verbatim>\<open>nVar\<close>, and a Jacobian is \<^verbatim>\<open>nVar\<close> by \<^verbatim>\<open>nVar\<close>.
\<close>

definition mat_ok :: "nat \<Rightarrow> su2double list list \<Rightarrow> bool" where
  "mat_ok m J \<longleftrightarrow> length J = m \<and> (\<forall>a<m. length (J ! a) = m)"

definition call_ok :: "'a CNumerics_scheme \<Rightarrow> face \<Rightarrow> outputs \<Rightarrow> bool" where
  "call_ok k f out \<longleftrightarrow>
     nVar k = nDim k \<and> nDim k \<le> 3 \<and>
     length (V_i f) = nDim k + 2 \<and> length (V_j f) = nDim k + 2 \<and>
     length (Normal f) = nDim k \<and>
     length (U_i f) = nVar k \<and> length (U_j f) = nVar k \<and>
     length (Und_Lapl_i f) = nVar k \<and> length (Und_Lapl_j f) = nVar k \<and>
     length (val_residual out) = nVar k \<and>
     mat_ok (nVar k) (val_Jacobian_i out) \<and> mat_ok (nVar k) (val_Jacobian_j out)"

subsection \<open>Quantities in the words of the specification\<close>

text \<open>
  The mass flux: the mean density times the dot product of the mean velocity and the
  normal, both means arithmetic averages of the two sides.
\<close>

definition spec_massFlux :: "nat \<Rightarrow> face \<Rightarrow> su2double" where
  "spec_massFlux n f =
     (0.5 * (V_i f ! (n + 1) + V_j f ! (n + 1))) *
     (\<Sum>d<n. (0.5 * (V_i f ! (d + 1) + V_j f ! (d + 1))) * Normal f ! d)"

text \<open>
  The blending exponents and the stretching factor: the spectral radii are the ones of
  the call, \<open>\<lambda>_i = |2 (velocity_i \<cdot> normal)|\<close> and \<open>\<lambda>_j\<close> alike, and the exponent is 0.3.
\<close>

definition spec_Phi_i :: "nat \<Rightarrow> face \<Rightarrow> su2double" where
  "spec_Phi_i n f = (Local_Lambda_i n f / (4 * MeanLambda n f)) powr 0.3"

definition spec_Phi_j :: "nat \<Rightarrow> face \<Rightarrow> su2double" where
  "spec_Phi_j n f = (Local_Lambda_j n f / (4 * MeanLambda n f)) powr 0.3"

definition spec_stretch :: "nat \<Rightarrow> face \<Rightarrow> su2double" where
  "spec_stretch n f = 4 * spec_Phi_i n f * spec_Phi_j n f / (spec_Phi_i n f + spec_Phi_j n f)"

text \<open>
  The dissipation coefficients: \<open>sc2 = 3 (n_i + n_j) / (n_i n_j)\<close>, \<open>sc4 = sc2\<^sup>2 / 4\<close>,
  \<open>\<epsilon>2 = \<kappa>2 0.5 (sensor_i + sensor_j) sc2\<close>, \<open>\<epsilon>4 = max(0, \<kappa>4 - \<epsilon>2) sc4\<close> and, for the Lax
  kernel, \<open>\<epsilon>0 = \<kappa>0 sc0 dim / 3\<close> with \<open>sc0 = sc2\<close>.
\<close>

definition spec_sc :: "face \<Rightarrow> su2double" where
  "spec_sc f = 3 * (real (Neighbor_i f) + real (Neighbor_j f))
                 / (real (Neighbor_i f) * real (Neighbor_j f))"

definition spec_eps2 :: "CCentJSTPB_Flow \<Rightarrow> face \<Rightarrow> su2double" where
  "spec_eps2 k f = Param_Kappa_2 k * (0.5 * (Sensor_i f + Sensor_j f)) * spec_sc f"

definition spec_eps4 :: "CCentJSTPB_Flow \<Rightarrow> face \<Rightarrow> su2double" where
  "spec_eps4 k f = max 0 (Param_Kappa_4 k - spec_eps2 k f) * ((spec_sc f)\<^sup>2 / 4)"

definition spec_eps0 :: "CCentLaxPB_Flow \<Rightarrow> face \<Rightarrow> su2double" where
  "spec_eps0 k f = Param_Kappa_0 k * spec_sc f * real (nDim k) / 3"

subsection \<open>Doubling the face normal\<close>

text \<open>
  The face with the normal \<open>N\<close> replaced by \<open>2 N\<close> and every other input held fixed,
  and the face with the members \<^verbatim>\<open>Lambda_i\<close> and \<^verbatim>\<open>Lambda_j\<close> doubled as well.
\<close>

definition double_normal :: "face \<Rightarrow> face" where
  "double_normal f = f\<lparr>Normal := map (\<lambda>x. 2 * x) (Normal f)\<rparr>"

definition double_normal_lambda :: "face \<Rightarrow> face" where
  "double_normal_lambda f =
     (double_normal f)\<lparr>Lambda_i := 2 * Lambda_i f, Lambda_j := 2 * Lambda_j f\<rparr>"

subsection \<open>Concrete inputs\<close>

text \<open>
  An implicit configuration with \<open>\<kappa>0 = \<kappa>2 = 1\<close> and \<open>\<kappa>4 = 2\<close>, and the same with an explicit
  time integration.
\<close>

definition config_0 :: CConfig where
  "config_0 = \<lparr>GetKind_TimeIntScheme_Flow = EULER_IMPLICIT, GetGravityForce = False,
               GetFroude = 1, GetGrid_Movement = False, GetKappa_1st_Flow = 1,
               GetKappa_2nd_Flow = 1, GetKappa_4th_Flow = 2\<rparr>"

definition config_explicit :: CConfig where
  "config_explicit = config_0\<lparr>GetKind_TimeIntScheme_Flow := EULER_EXPLICIT\<rparr>"

text \<open>
  A face in two dimensions: pressures 10 and 20, velocities \<open>(1, 0)\<close> and \<open>(0, 0)\<close>, unit
  densities, normal \<open>(1, 0)\<close>, momenta \<open>(1, 0)\<close> and \<open>(0, 0)\<close>, Laplacians \<open>(3, 0)\<close> and
  \<open>(0, 0)\<close>, sensors \<open>1/2\<close>, \<^verbatim>\<open>Lambda_i = Lambda_j = 4\<close>, three neighbours on each side.
  The spectral radii of the call are 2 and 0 there, and their mean is 1.
\<close>

definition face_0 :: face where
  "face_0 = \<lparr>V_i = [10, 1, 0, 1], V_j = [20, 0, 0, 1], U_i = [1, 0], U_j = [0, 0],
             Normal = [1, 0], Und_Lapl_i = [3, 0], Und_Lapl_j = [0, 0],
             Sensor_i = 1 / 2, Sensor_j = 1 / 2, Lambda_i = 4, Lambda_j = 4,
             Neighbor_i = 3, Neighbor_j = 3\<rparr>"

text \<open>The same face with the fluid at rest on both sides.\<close>

definition face_rest :: face where
  "face_rest = face_0\<lparr>V_i := [10, 0, 0, 1], V_j := [20, 0, 0, 1]\<rparr>"

text \<open>The same face with no neighbour on side \<open>i\<close>.\<close>

definition face_alone :: face where
  "face_alone = face_0\<lparr>Neighbor_i := 0\<rparr>"

text \<open>Output arrays holding arbitrary values before the call.\<close>

definition out_0 :: outputs where
  "out_0 = \<lparr>val_residual = [7, 7], val_Jacobian_i = [[1, 2], [3, 4]],
            val_Jacobian_j = [[5, 6], [7, 8]]\<rparr>"

section \<open>Loops over arrays\<close>

lemma for_upto_0 [simp]: "for_upto 0 body s = s"
  by (simp add: for_upto_def)

lemma for_upto_Suc [simp]: "for_upto (Suc n) body s = body n (for_upto n body s)"
  by (simp add: for_upto_def)

lemma for_upto_sum: "for_upto n (\<lambda>i acc. acc + g i) (a::real) = a + (\<Sum>i<n. g i)"
  by (induction n) simp_all

lemma length_for_upto_upd [simp]:
  "length (for_upto n (\<lambda>i ys. ys[i := h i ys]) xs) = length xs"
  by (induction n) simp_all

lemma nth_for_upto_upd:
  "n \<le> length xs \<Longrightarrow>
   for_upto n (\<lambda>i ys. ys[i := h i (ys ! i)]) xs ! j = (if j < n then h j (xs ! j) else xs ! j)"
proof (induction n arbitrary: j)
  case 0
  show ?case by simp
next
  case (Suc n)
  let ?ys = "for_upto n (\<lambda>i ys. ys[i := h i (ys ! i)]) xs"
  have len: "length ?ys = length xs" by simp
  from Suc.prems have "n \<le> length xs" by simp
  then have ih: "?ys ! j = (if j < n then h j (xs ! j) else xs ! j)" for j
    by (rule Suc.IH)
  show ?case
  proof (cases "j = n")
    case True
    with Suc.prems len ih [of n] show ?thesis by simp
  next
    case False
    with ih [of j] show ?thesis by (simp add: less_Suc_eq)
  qed
qed

lemma for_upto_row:
  "for_upto m (\<lambda>j J. J[i := (J ! i)[j := e j (J ! i ! j)]]) J =
   J[i := for_upto m (\<lambda>j row. row[j := e j (row ! j)]) (J ! i)]"
proof (induction m)
  case 0
  show ?case by simp
next
  case (Suc m)
  show ?case
  proof (cases "i < length J")
    case True
    with Suc show ?thesis by simp
  next
    case False
    with Suc show ?thesis by (simp add: list_update_beyond)
  qed
qed

lemma nth_for_upto_block:
  assumes "n \<le> length J"
  shows "for_upto n (\<lambda>i J. for_upto m (\<lambda>j J. J[i := (J ! i)[j := e i j (J ! i ! j)]]) J) J ! a =
         (if a < n then for_upto m (\<lambda>j row. row[j := e a j (row ! j)]) (J ! a) else J ! a)"
  using assms by (simp add: for_upto_row nth_for_upto_upd [where h = "\<lambda>i row. for_upto m (\<lambda>j row. row[j := e i j (row ! j)]) row"])

lemma nth_nth_for_upto_block:
  assumes "n \<le> length J" "a < n" "m \<le> length (J ! a)"
  shows "for_upto n (\<lambda>i J. for_upto m (\<lambda>j J. J[i := (J ! i)[j := e i j (J ! i ! j)]]) J) J ! a ! b =
         (if b < m then e a b (J ! a ! b) else J ! a ! b)"
  using assms by (simp add: nth_for_upto_block nth_for_upto_upd)

section \<open>The helpers and the quantities of a face\<close>

lemma length_for_upto_block [simp]:
  "length (for_upto n (\<lambda>i J. for_upto m (\<lambda>j J. J[i := (J ! i)[j := e i j (J ! i ! j)]]) J) J) = length J"
  by (simp add: for_upto_row)

lemma mat_ok_block:
  assumes "mat_ok m J"
  shows "mat_ok m (for_upto m (\<lambda>i J. for_upto m (\<lambda>j J. J[i := (J ! i)[j := e i j (J ! i ! j)]]) J) J)"
  using assms by (simp add: mat_ok_def nth_for_upto_block)

lemma block_entry:
  assumes "mat_ok m J" "a < m" "b < m"
  shows "for_upto m (\<lambda>i J. for_upto m (\<lambda>j J. J[i := (J ! i)[j := e i j (J ! i ! j)]]) J) J ! a ! b
           = e a b (J ! a ! b)"
  using assms by (simp add: mat_ok_def nth_nth_for_upto_block)

lemma mat_ok_diag:
  assumes "mat_ok m J"
  shows "mat_ok m (for_upto m (\<lambda>i J. J[i := (J ! i)[i := g i (J ! i ! i)]]) J)"
  using assms by (simp add: mat_ok_def nth_for_upto_upd [where h = "\<lambda>i row. row[i := g i (row ! i)]"])

lemma diag_entry:
  assumes "n \<le> length J"
  shows "for_upto n (\<lambda>i J. J[i := (J ! i)[i := g i (J ! i ! i)]]) J ! a ! b =
           (if a < n \<and> b = a \<and> a < length (J ! a) then g a (J ! a ! a) else J ! a ! b)"
  using assms
  by (auto simp add: nth_for_upto_upd [where h = "\<lambda>i row. row[i := g i (row ! i)]"]
        nth_list_update list_update_beyond)

lemma GetInviscidPBProjJac_ok:
  "mat_ok n J \<Longrightarrow> mat_ok n (GetInviscidPBProjJac n d v nrm sc J)"
  unfolding GetInviscidPBProjJac_def Let_def
  by (rule mat_ok_block [where e = "\<lambda>k l x. sc * d * ((if k = l then for_upto n (\<lambda>iDim acc. acc + v ! iDim * nrm ! iDim) 0 else 0) + v ! k * nrm ! l)"])

lemma GetInviscidPBProjJac_entry:
  "mat_ok n J \<Longrightarrow> a < n \<Longrightarrow> b < n \<Longrightarrow>
   GetInviscidPBProjJac n d v nrm sc J ! a ! b =
     sc * d * ((if a = b then (\<Sum>i<n. v ! i * nrm ! i) else 0) + v ! a * nrm ! b)"
  unfolding GetInviscidPBProjJac_def Let_def
  by (simp add: block_entry [where e = "\<lambda>k l x. sc * d * ((if k = l then for_upto n (\<lambda>iDim acc. acc + v ! iDim * nrm ! iDim) 0 else 0) + v ! k * nrm ! l)"] for_upto_sum)

lemma GetInviscidPBProjFlux_entry:
  "a < n \<Longrightarrow> GetInviscidPBProjFlux n d v p nrm ! a = d * v ! a * (\<Sum>i<n. v ! i * nrm ! i) + p * nrm ! a"
  by (simp add: GetInviscidPBProjFlux_def for_upto_sum)

lemma Velocity_i_nth [simp]: "a < n \<Longrightarrow> Velocity_i n f ! a = V_i f ! (a + 1)"
  by (simp add: Velocity_i_def)

lemma Velocity_j_nth [simp]: "a < n \<Longrightarrow> Velocity_j n f ! a = V_j f ! (a + 1)"
  by (simp add: Velocity_j_def)

lemma MeanVelocity_nth [simp]:
  "a < n \<Longrightarrow> MeanVelocity n f ! a = 0.5 * (V_i f ! (a + 1) + V_j f ! (a + 1))"
  by (simp add: MeanVelocity_def)

lemma ProjVelocity_i_sum: "ProjVelocity_i n f = (\<Sum>d<n. V_i f ! (d + 1) * Normal f ! d)"
  by (simp add: ProjVelocity_i_def for_upto_sum)

lemma ProjVelocity_j_sum: "ProjVelocity_j n f = (\<Sum>d<n. V_j f ! (d + 1) * Normal f ! d)"
  by (simp add: ProjVelocity_j_def for_upto_sum)

lemma Face_Flux_sum:
  "Face_Flux n f = MeanDensity n f * (\<Sum>d<n. 0.5 * (V_i f ! (d + 1) + V_j f ! (d + 1)) * Normal f ! d)"
  by (simp add: Face_Flux_def for_upto_sum sum_distrib_left mult.assoc)

lemma nth_for_upto_assign:
  "n \<le> length xs \<Longrightarrow>
   for_upto n (\<lambda>i ys. ys[i := g i]) xs ! j = (if j < n then g j else xs ! j)"
  by (rule nth_for_upto_upd [where h = "\<lambda>i x. g i"])

lemma nth_for_upto_add:
  "n \<le> length xs \<Longrightarrow>
   for_upto n (\<lambda>i ys. ys[i := ys ! i + g i]) xs ! j = (if j < n then xs ! j + g j else xs ! j)"
  by (rule nth_for_upto_upd [where h = "\<lambda>i x. x + g i"])

lemma mat_ok_assign:
  "mat_ok m J \<Longrightarrow>
   mat_ok m (for_upto m (\<lambda>i J. for_upto m (\<lambda>j J. J[i := (J ! i)[j := e i j]]) J) J)"
  by (rule mat_ok_block [where e = "\<lambda>i j x. e i j"])

lemma assign_entry:
  "mat_ok m J \<Longrightarrow> a < m \<Longrightarrow> b < m \<Longrightarrow>
   for_upto m (\<lambda>i J. for_upto m (\<lambda>j J. J[i := (J ! i)[j := e i j]]) J) J ! a ! b = e a b"
  by (rule block_entry [where e = "\<lambda>i j x. e i j"])

lemma mat_ok_diag_add:
  "mat_ok m J \<Longrightarrow> mat_ok m (for_upto m (\<lambda>i J. J[i := (J ! i)[i := J ! i ! i + c]]) J)"
  by (rule mat_ok_diag [where g = "\<lambda>i x. x + c"])

lemma mat_ok_diag_sub:
  "mat_ok m J \<Longrightarrow> mat_ok m (for_upto m (\<lambda>i J. J[i := (J ! i)[i := J ! i ! i - c]]) J)"
  by (rule mat_ok_diag [where g = "\<lambda>i x. x - c"])

lemma diag_add_entry:
  "mat_ok m J \<Longrightarrow>
   for_upto m (\<lambda>i J. J[i := (J ! i)[i := J ! i ! i + c]]) J ! a ! b =
     (if a < m \<and> b = a then J ! a ! a + c else J ! a ! b)"
  using diag_entry [where g = "\<lambda>i x. x + c" and n = m and J = J and a = a and b = b]
  by (auto simp add: mat_ok_def)

lemma diag_sub_entry:
  "mat_ok m J \<Longrightarrow>
   for_upto m (\<lambda>i J. J[i := (J ! i)[i := J ! i ! i - c]]) J ! a ! b =
     (if a < m \<and> b = a then J ! a ! a - c else J ! a ! b)"
  using diag_entry [where g = "\<lambda>i x. x - c" and n = m and J = J and a = a and b = b]
  by (auto simp add: mat_ok_def)

section \<open>The upwind kernel\<close>

lemma upwind_residual_entry:
  assumes "nVar k \<le> length (val_residual out)" and "iVar < nVar k"
  shows "val_residual (CUpwPB_Flow_ComputeResidual k f out) ! iVar =
           (if Face_Flux (nDim k) f > 0
            then Face_Flux (nDim k) f * V_i f ! (iVar + 1)
            else Face_Flux (nDim k) f * V_j f ! (iVar + 1))"
proof -
  have "val_residual (CUpwPB_Flow_ComputeResidual k f out) =
      (if Face_Flux (nDim k) f > 0
       then for_upto (nVar k)
              (\<lambda>iVar r. r[iVar := Face_Flux (nDim k) f * V_i f ! (iVar + 1)]) (val_residual out)
       else for_upto (nVar k)
              (\<lambda>iVar r. r[iVar := Face_Flux (nDim k) f * V_j f ! (iVar + 1)]) (val_residual out))"
    by (simp add: CUpwPB_Flow_ComputeResidual_def Let_def)
  with assms show ?thesis
    by (simp add: nth_for_upto_assign)
qed

lemma Face_Flux_spec: "Face_Flux n f = spec_massFlux n f"
  by (simp add: Face_Flux_sum spec_massFlux_def MeanDensity_def DensityInc_i_def DensityInc_j_def)

lemma call_ok_0: "call_ok (CUpwPB_Flow 2 2 config_0) face_0 out_0"
  by (simp add: call_ok_def mat_ok_def CUpwPB_Flow_def face_0_def out_0_def less_Suc_eq numeral_2_eq_2)

text \<open>
  C2. For every call of \<^verbatim>\<open>CUpwPB_Flow::ComputeResidual\<close>: with the mass flux built from
  the arithmetic averages of the two sides, every residual component \<open>iVar\<close> is the
  mass flux times the velocity component \<open>iVar\<close> of side \<open>i\<close> (\<open>V_i[iVar + 1]\<close>) when
  the mass flux is positive, and of side \<open>j\<close> otherwise, a zero mass flux included.
\<close>

theorem upwind_residual_donor:
  assumes "call_ok k f out" and "iVar < nVar k"
  shows "val_residual (CUpwPB_Flow_ComputeResidual k f out) ! iVar =
           (if spec_massFlux (nDim k) f > 0
            then spec_massFlux (nDim k) f * V_i f ! (iVar + 1)
            else spec_massFlux (nDim k) f * V_j f ! (iVar + 1))"
proof -
  from assms have len: "nVar k \<le> length (val_residual out)"
    by (simp add: call_ok_def)
  from upwind_residual_entry [OF len assms(2)] show ?thesis
    by (simp add: Face_Flux_spec)
qed

theorem upwind_residual_donor_witness:
  "call_ok (CUpwPB_Flow 2 2 config_0) face_0 out_0 \<and>
   (0::nat) < nVar (CUpwPB_Flow 2 2 config_0) \<and>
   spec_massFlux 2 face_0 = 1 / 2 \<and>
   val_residual (CUpwPB_Flow_ComputeResidual (CUpwPB_Flow 2 2 config_0) face_0 out_0) ! 0 = 1 / 2"
proof -
  have ok: "call_ok (CUpwPB_Flow 2 2 config_0) face_0 out_0"
    by (rule call_ok_0)
  have lt: "(0::nat) < nVar (CUpwPB_Flow 2 2 config_0)"
    by (simp add: CUpwPB_Flow_def)
  have nd: "nDim (CUpwPB_Flow 2 2 config_0) = 2"
    by (simp add: CUpwPB_Flow_def)
  have mf: "spec_massFlux 2 face_0 = 1 / 2"
    by (simp add: spec_massFlux_def face_0_def numeral_2_eq_2)
  have v: "V_i face_0 ! Suc 0 = 1"
    by (simp add: face_0_def)
  from upwind_residual_donor [OF ok lt] show ?thesis
    by (simp add: ok lt nd mf v)
qed

section \<open>The pressure source\<close>

text \<open>
  C6. For every call of \<^verbatim>\<open>CPressureSource::ComputeResidual\<close>: component \<open>d\<close> of the
  residual is the mean pressure times component \<open>d\<close> of the normal, for every spatial
  dimension \<open>d\<close>; the Jacobian passed in comes back as it was; and for pressures 10 and
  20 and the normal \<open>(1, 0)\<close> the residual is \<open>(15, 0)\<close>.
\<close>

theorem pressure_source_residual:
  "(nDim k \<le> length (fst out) \<longrightarrow> d < nDim k \<longrightarrow>
      fst (CPressureSource_ComputeResidual k f out) ! d
        = 0.5 * (V_i f ! 0 + V_j f ! 0) * Normal f ! d) \<and>
   snd (CPressureSource_ComputeResidual k f out) = snd out \<and>
   (nDim k = 2 \<longrightarrow> length (fst out) = 2 \<longrightarrow> V_i f ! 0 = 10 \<longrightarrow> V_j f ! 0 = 20 \<longrightarrow>
      Normal f = [1, 0] \<longrightarrow> fst (CPressureSource_ComputeResidual k f out) = [15, 0])"
proof -
  have entry: "fst (CPressureSource_ComputeResidual k f out) ! d
        = (if d < nDim k then 0.5 * (V_i f ! 0 + V_j f ! 0) * Normal f ! d else fst out ! d)"
    if "nDim k \<le> length (fst out)" for d
    using that
    by (simp add: CPressureSource_ComputeResidual_def MeanPressure_def Pressure_i_def
          Pressure_j_def nth_for_upto_assign)
  have len: "length (fst (CPressureSource_ComputeResidual k f out)) = length (fst out)"
    by (simp add: CPressureSource_ComputeResidual_def)
  have inst: "fst (CPressureSource_ComputeResidual k f out) = [15, 0]"
    if "nDim k = 2" "length (fst out) = 2" "V_i f ! 0 = 10" "V_j f ! 0 = 20" "Normal f = [1, 0]"
  proof (rule nth_equalityI)
    show "length (fst (CPressureSource_ComputeResidual k f out)) = length [15, 0::real]"
      using that len by simp
  next
    fix i assume "i < length (fst (CPressureSource_ComputeResidual k f out))"
    with that len have "i < 2" by simp
    then have "i = 0 \<or> i = 1" by auto
    with that entry [of i] show "fst (CPressureSource_ComputeResidual k f out) ! i = [15, 0] ! i"
      by auto
  qed
  show ?thesis
    using entry inst by (simp add: CPressureSource_ComputeResidual_def)
qed

theorem pressure_source_residual_witness:
  "fst (CPressureSource_ComputeResidual (CPressureSource 2 2 config_0) face_0 ([7, 7], [[1, 2], [3, 4]]))
     = [15, 0] \<and>
   snd (CPressureSource_ComputeResidual (CPressureSource 2 2 config_0) face_0 ([7, 7], [[1, 2], [3, 4]]))
     = [[1, 2], [3, 4]]"
  using pressure_source_residual [of "CPressureSource 2 2 config_0" "([7, 7], [[1, 2], [3, 4]])" 0 face_0]
  by (simp add: CPressureSource_def face_0_def)

section \<open>The spectral radius and the stretching factor\<close>

lemma MeanLambda_nonneg: "0 \<le> MeanLambda n f"
  by (simp add: MeanLambda_def Local_Lambda_i_def Local_Lambda_j_def)

lemma MeanLambda_zero_iff:
  "MeanLambda n f = 0 \<longleftrightarrow> ProjVelocity_i n f = 0 \<and> ProjVelocity_j n f = 0"
  by (auto simp add: MeanLambda_def Local_Lambda_i_def Local_Lambda_j_def)

lemma Phi_i_eq:
  "Phi_i n p f =
     (if MeanLambda n f = 0 then Inl DivisionByZero
      else if Lambda_i f < 0 then Inl PowDomain
      else Inr ((Lambda_i f / (4 * MeanLambda n f)) powr p))"
  using MeanLambda_nonneg [of n f]
  by (auto simp add: Phi_i_def su2_div_def su2_pow_def bind_err_def divide_less_0_iff
        zero_le_divide_iff not_less)

lemma Phi_j_eq:
  "Phi_j n p f =
     (if MeanLambda n f = 0 then Inl DivisionByZero
      else if Lambda_j f < 0 then Inl PowDomain
      else Inr ((Lambda_j f / (4 * MeanLambda n f)) powr p))"
  using MeanLambda_nonneg [of n f]
  by (auto simp add: Phi_j_def su2_div_def su2_pow_def bind_err_def divide_less_0_iff
        zero_le_divide_iff not_less)

lemma StretchingFactor_eq:
  "StretchingFactor n p f =
     (if MeanLambda n f = 0 then Inl DivisionByZero
      else if Lambda_i f < 0 \<or> Lambda_j f < 0 then Inl PowDomain
      else if Lambda_i f = 0 \<and> Lambda_j f = 0 then Inl DivisionByZero
      else Inr (4 * (Lambda_i f / (4 * MeanLambda n f)) powr p
                  * (Lambda_j f / (4 * MeanLambda n f)) powr p
                  / ((Lambda_i f / (4 * MeanLambda n f)) powr p
                     + (Lambda_j f / (4 * MeanLambda n f)) powr p)))"
proof -
  have sum0: "x powr p + y powr p = 0 \<longleftrightarrow> x = 0 \<and> y = 0" for x y :: real
    using powr_ge_zero [of x p] powr_ge_zero [of y p]
    by (auto simp add: add_nonneg_eq_0_iff)
  show ?thesis
    by (auto simp add: StretchingFactor_def Phi_i_eq Phi_j_eq bind_err_def su2_div_def sum0)
qed

lemma StretchingFactor_zero_mean:
  "MeanLambda n f = 0 \<Longrightarrow> StretchingFactor n p f = Inl DivisionByZero"
  by (simp add: StretchingFactor_eq)

lemma sc2_eq:
  "sc2 f = (if Neighbor_i f = 0 \<or> Neighbor_j f = 0 then Inl DivisionByZero
            else Inr (3 * (real (Neighbor_i f) + real (Neighbor_j f))
                        / (real (Neighbor_i f) * real (Neighbor_j f))))"
  by (simp add: sc2_def su2_div_def)

lemma sc0_eq: "sc0 f = sc2 f"
  by (simp add: sc0_def sc2_def)

lemma face_0_lambda:
  "ProjVelocity_i 2 face_0 = 1" "ProjVelocity_j 2 face_0 = 0"
  "Local_Lambda_i 2 face_0 = 2" "Local_Lambda_j 2 face_0 = 0" "MeanLambda 2 face_0 = 1"
  by (simp_all add: MeanLambda_def Local_Lambda_i_def Local_Lambda_j_def ProjVelocity_i_sum
        ProjVelocity_j_sum face_0_def numeral_2_eq_2)

lemma face_0_stretch: "StretchingFactor 2 p face_0 = Inr 2"
  by (simp add: StretchingFactor_eq face_0_lambda) (simp add: face_0_def)

lemma face_rest_lambda: "MeanLambda 2 face_rest = 0"
  by (simp add: MeanLambda_def Local_Lambda_i_def Local_Lambda_j_def ProjVelocity_i_sum
        ProjVelocity_j_sum face_rest_def face_0_def numeral_2_eq_2)

lemma jst_dissipation_error:
  "StretchingFactor (nDim k) (CCentJSTPB_Flow.Param_p k) f = Inl e \<Longrightarrow>
   CCentJSTPB_Flow_dissipation k f out = Inl e"
  by (simp add: CCentJSTPB_Flow_dissipation_def bind_err_def Let_def)

lemma lax_dissipation_error:
  "StretchingFactor (nDim k) (CCentLaxPB_Flow.Param_p k) f = Inl e \<Longrightarrow>
   CCentLaxPB_Flow_dissipation k f out = Inl e"
  by (simp add: CCentLaxPB_Flow_dissipation_def bind_err_def Let_def)

text \<open>
  C1, as the code has it. The blending exponents of both central kernels are computed
  from the members \<^verbatim>\<open>Lambda_i\<close> and \<^verbatim>\<open>Lambda_j\<close>, which the caller supplies, and from the
  mean of the two spectral radii of the call: with
  \<open>\<lambda>_i = |2 (velocity_i \<cdot> normal)|\<close>, \<open>\<lambda>_j = |2 (velocity_j \<cdot> normal)|\<close> and
  \<open>meanLambda = 0.5 (\<lambda>_i + \<lambda>_j)\<close> different from zero, and \<^verbatim>\<open>Lambda_i\<close>, \<^verbatim>\<open>Lambda_j\<close> not
  negative and not both zero, \<open>\<phi>_i = (Lambda_i / (4 meanLambda))^0.3\<close>,
  \<open>\<phi>_j = (Lambda_j / (4 meanLambda))^0.3\<close> and the stretching factor is
  \<open>4 \<phi>_i \<phi>_j / (\<phi>_i + \<phi>_j)\<close>; the exponent 0.3 is the one both constructors store.
\<close>

theorem stretching_from_member_lambdas:
  assumes "MeanLambda n f \<noteq> 0" and "0 \<le> Lambda_i f" and "0 \<le> Lambda_j f"
      and "0 < Lambda_i f \<or> 0 < Lambda_j f"
  shows "CCentJSTPB_Flow.Param_p (CCentJSTPB_Flow n m config) = 0.3 \<and>
         CCentLaxPB_Flow.Param_p (CCentLaxPB_Flow n m config) = 0.3 \<and>
         Local_Lambda_i n f = \<bar>2 * (\<Sum>d<n. V_i f ! (d + 1) * Normal f ! d)\<bar> \<and>
         Local_Lambda_j n f = \<bar>2 * (\<Sum>d<n. V_j f ! (d + 1) * Normal f ! d)\<bar> \<and>
         MeanLambda n f = 0.5 * (Local_Lambda_i n f + Local_Lambda_j n f) \<and>
         Phi_i n 0.3 f = Inr ((Lambda_i f / (4 * MeanLambda n f)) powr 0.3) \<and>
         Phi_j n 0.3 f = Inr ((Lambda_j f / (4 * MeanLambda n f)) powr 0.3) \<and>
         StretchingFactor n 0.3 f =
           Inr (4 * (Lambda_i f / (4 * MeanLambda n f)) powr 0.3
                  * (Lambda_j f / (4 * MeanLambda n f)) powr 0.3
                  / ((Lambda_i f / (4 * MeanLambda n f)) powr 0.3
                     + (Lambda_j f / (4 * MeanLambda n f)) powr 0.3))"
proof -
  have p: "CCentJSTPB_Flow.Param_p (CCentJSTPB_Flow n m config) = 0.3"
    "CCentLaxPB_Flow.Param_p (CCentLaxPB_Flow n m config) = 0.3"
    by (simp_all add: CCentJSTPB_Flow_def CCentLaxPB_Flow_def)
  have l: "Local_Lambda_i n f = \<bar>2 * (\<Sum>d<n. V_i f ! (d + 1) * Normal f ! d)\<bar>"
    "Local_Lambda_j n f = \<bar>2 * (\<Sum>d<n. V_j f ! (d + 1) * Normal f ! d)\<bar>"
    by (simp_all only: Local_Lambda_i_def Local_Lambda_j_def ProjVelocity_i_sum ProjVelocity_j_sum)
  have m: "MeanLambda n f = 0.5 * (Local_Lambda_i n f + Local_Lambda_j n f)"
    by (simp only: MeanLambda_def)
  from assms have phi: "Phi_i n 0.3 f = Inr ((Lambda_i f / (4 * MeanLambda n f)) powr 0.3)"
    "Phi_j n 0.3 f = Inr ((Lambda_j f / (4 * MeanLambda n f)) powr 0.3)"
    by (simp_all add: Phi_i_eq Phi_j_eq)
  from assms have s: "StretchingFactor n 0.3 f =
           Inr (4 * (Lambda_i f / (4 * MeanLambda n f)) powr 0.3
                  * (Lambda_j f / (4 * MeanLambda n f)) powr 0.3
                  / ((Lambda_i f / (4 * MeanLambda n f)) powr 0.3
                     + (Lambda_j f / (4 * MeanLambda n f)) powr 0.3))"
    by (auto simp add: StretchingFactor_eq)
  from p l m phi s show ?thesis by blast
qed

theorem stretching_from_member_lambdas_witness:
  "MeanLambda 2 face_0 \<noteq> 0 \<and> 0 \<le> Lambda_i face_0 \<and> 0 \<le> Lambda_j face_0 \<and>
   0 < Lambda_i face_0 \<and>
   Phi_i 2 0.3 face_0 = Inr 1 \<and> Phi_j 2 0.3 face_0 = Inr 1 \<and>
   StretchingFactor 2 0.3 face_0 = Inr 2"
proof -
  have h: "MeanLambda 2 face_0 \<noteq> 0" "0 \<le> Lambda_i face_0" "0 \<le> Lambda_j face_0"
    "0 < Lambda_i face_0 \<or> 0 < Lambda_j face_0"
    by (simp_all add: face_0_lambda) (simp_all add: face_0_def)
  have v: "Lambda_i face_0 = 4" "Lambda_j face_0 = 4"
    by (simp_all add: face_0_def)
  from stretching_from_member_lambdas [OF h, of 2 config_0] show ?thesis
    by (simp add: face_0_lambda v)
qed

text \<open>
  C1 as stated fails: on the concrete face the spectral radii of the call are 2 and 0
  and the members \<^verbatim>\<open>Lambda_i\<close>, \<^verbatim>\<open>Lambda_j\<close> are both 4; the code's \<open>\<phi>_i\<close> is 1 and its
  stretching factor 2, where the claim's are \<open>(1/2)^0.3\<close> and 0.
\<close>

theorem stretching_local_lambdas_counterexample:
  "Local_Lambda_i 2 face_0 = 2 \<and> Local_Lambda_j 2 face_0 = 0 \<and> MeanLambda 2 face_0 = 1 \<and>
   Phi_i 2 (CCentJSTPB_Flow.Param_p (CCentJSTPB_Flow 2 2 config_0)) face_0 = Inr 1 \<and>
   Phi_i 2 (CCentJSTPB_Flow.Param_p (CCentJSTPB_Flow 2 2 config_0)) face_0
     \<noteq> Inr (spec_Phi_i 2 face_0) \<and>
   StretchingFactor 2 (CCentJSTPB_Flow.Param_p (CCentJSTPB_Flow 2 2 config_0)) face_0 = Inr 2 \<and>
   StretchingFactor 2 (CCentLaxPB_Flow.Param_p (CCentLaxPB_Flow 2 2 config_0)) face_0 = Inr 2 \<and>
   spec_stretch 2 face_0 = 0"
proof -
  have v: "Lambda_i face_0 = 4" "Lambda_j face_0 = 4"
    by (simp_all add: face_0_def)
  have a: "Phi_i 2 p face_0 = Inr 1" for p
    by (simp add: Phi_i_eq face_0_lambda v)
  have b: "spec_Phi_i 2 face_0 \<noteq> 1"
    by (simp add: spec_Phi_i_def face_0_lambda)
  have c: "spec_stretch 2 face_0 = 0"
    by (simp add: spec_stretch_def spec_Phi_j_def face_0_lambda)
  from a b c show ?thesis
    by (simp add: face_0_lambda face_0_stretch)
qed

lemma face_rest_proj: "ProjVelocity_i 2 face_rest = 0" "ProjVelocity_j 2 face_rest = 0"
  by (simp_all add: ProjVelocity_i_sum ProjVelocity_j_sum face_rest_def face_0_def numeral_2_eq_2)

text \<open>
  C8, as the code has it. Neither central kernel guards the division by
  \<open>4 meanLambda\<close>: when both projected velocities are zero, \<open>meanLambda\<close> is zero, the
  quotients for \<open>\<phi>_i\<close> and \<open>\<phi>_j\<close> are divisions by zero, and so are the stretching
  factor and the whole call; \<open>meanLambda\<close> is zero in no other case.
\<close>

theorem mean_lambda_zero_unguarded:
  assumes "ProjVelocity_i n f = 0" and "ProjVelocity_j n f = 0"
      and "nDim kj = n" and "nDim kl = n"
  shows "MeanLambda n f = 0 \<and>
         Phi_i n p f = Inl DivisionByZero \<and> Phi_j n p f = Inl DivisionByZero \<and>
         StretchingFactor n p f = Inl DivisionByZero \<and>
         CCentJSTPB_Flow_ComputeResidual kj f out = Inl DivisionByZero \<and>
         CCentLaxPB_Flow_ComputeResidual kl f out = Inl DivisionByZero \<and>
         (\<forall>g. MeanLambda n g = 0 \<longleftrightarrow> ProjVelocity_i n g = 0 \<and> ProjVelocity_j n g = 0)"
proof -
  from assms have z: "MeanLambda n f = 0"
    by (simp add: MeanLambda_zero_iff)
  then have s: "StretchingFactor n q f = Inl DivisionByZero" for q
    by (rule StretchingFactor_zero_mean)
  from assms(3) s have j: "CCentJSTPB_Flow_ComputeResidual kj f out = Inl DivisionByZero"
    by (simp add: CCentJSTPB_Flow_ComputeResidual_def jst_dissipation_error)
  from assms(4) s have l: "CCentLaxPB_Flow_ComputeResidual kl f out = Inl DivisionByZero"
    by (simp add: CCentLaxPB_Flow_ComputeResidual_def lax_dissipation_error)
  from z s j l show ?thesis
    by (simp add: Phi_i_eq Phi_j_eq MeanLambda_zero_iff)
qed

theorem mean_lambda_zero_unguarded_witness:
  "ProjVelocity_i 2 face_rest = 0 \<and> ProjVelocity_j 2 face_rest = 0 \<and>
   nDim (CCentJSTPB_Flow 2 2 config_0) = 2 \<and> nDim (CCentLaxPB_Flow 2 2 config_0) = 2 \<and>
   StretchingFactor 2 0.3 face_rest = Inl DivisionByZero \<and>
   CCentLaxPB_Flow_ComputeResidual (CCentLaxPB_Flow 2 2 config_0) face_rest out_0
     = Inl DivisionByZero"
proof -
  have n: "nDim (CCentJSTPB_Flow 2 2 config_0) = 2" "nDim (CCentLaxPB_Flow 2 2 config_0) = 2"
    by (simp_all add: CCentJSTPB_Flow_def CCentLaxPB_Flow_def)
  from mean_lambda_zero_unguarded [OF face_rest_proj n, where p = "0.3" and out = out_0]
  show ?thesis
    by (simp add: face_rest_proj n)
qed

text \<open>
  C8 as stated fails: with the fluid at rest on both sides of the concrete face the
  JST call divides by zero.
\<close>

theorem mean_lambda_guard_counterexample:
  "MeanLambda 2 face_rest = 0 \<and>
   su2_div (Lambda_i face_rest) (4 * MeanLambda 2 face_rest) = Inl DivisionByZero \<and>
   CCentJSTPB_Flow_ComputeResidual (CCentJSTPB_Flow 2 2 config_0) face_rest out_0
     = Inl DivisionByZero \<and>
   CCentLaxPB_Flow_ComputeResidual (CCentLaxPB_Flow 2 2 config_0) face_rest out_0
     = Inl DivisionByZero"
proof -
  have nj: "nDim (CCentJSTPB_Flow 2 2 config_0) = 2"
    by (simp add: CCentJSTPB_Flow_def)
  have nl: "nDim (CCentLaxPB_Flow 2 2 config_0) = 2"
    by (simp add: CCentLaxPB_Flow_def)
  have s: "StretchingFactor 2 q face_rest = Inl DivisionByZero" for q
    by (simp add: StretchingFactor_zero_mean face_rest_lambda)
  show ?thesis
    by (simp add: face_rest_lambda su2_div_def CCentJSTPB_Flow_ComputeResidual_def
          CCentLaxPB_Flow_ComputeResidual_def jst_dissipation_error lax_dissipation_error nj nl s)
qed

section \<open>The neighbour scaling\<close>

lemma jst_dissipation_neighbors:
  "StretchingFactor (nDim k) (CCentJSTPB_Flow.Param_p k) f = Inr s \<Longrightarrow>
   (\<exists>r. CCentJSTPB_Flow_dissipation k f out = Inr r) \<longleftrightarrow> Neighbor_i f \<noteq> 0 \<and> Neighbor_j f \<noteq> 0"
  by (auto simp add: CCentJSTPB_Flow_dissipation_def bind_err_def Let_def sc2_eq)

lemma lax_dissipation_neighbors:
  "StretchingFactor (nDim k) (CCentLaxPB_Flow.Param_p k) f = Inr s \<Longrightarrow>
   (\<exists>r. CCentLaxPB_Flow_dissipation k f out = Inr r) \<longleftrightarrow> Neighbor_i f \<noteq> 0 \<and> Neighbor_j f \<noteq> 0"
  by (auto simp add: CCentLaxPB_Flow_dissipation_def bind_err_def Let_def sc0_eq sc2_eq)

lemma jst_dissipation_no_neighbor:
  "Neighbor_i f = 0 \<or> Neighbor_j f = 0 \<Longrightarrow> \<exists>e. CCentJSTPB_Flow_dissipation k f out = Inl e"
  by (cases "StretchingFactor (nDim k) (CCentJSTPB_Flow.Param_p k) f")
     (auto simp add: CCentJSTPB_Flow_dissipation_def bind_err_def Let_def sc2_eq)

lemma lax_dissipation_no_neighbor:
  "Neighbor_i f = 0 \<or> Neighbor_j f = 0 \<Longrightarrow> \<exists>e. CCentLaxPB_Flow_dissipation k f out = Inl e"
  by (cases "StretchingFactor (nDim k) (CCentLaxPB_Flow.Param_p k) f")
     (auto simp add: CCentLaxPB_Flow_dissipation_def bind_err_def Let_def sc0_eq sc2_eq)

text \<open>
  C9. In both central kernels the neighbour scaling \<open>3 (n_i + n_j) / (n_i n_j)\<close> is
  computed with no guard on the counts: the division is by zero exactly when one of the
  counts is zero, and then the call yields no number; with both counts positive the
  scaling is the quotient, and a call whose stretching factor is defined returns.
\<close>

theorem neighbor_scaling_unguarded:
  "(sc2 f = Inl DivisionByZero \<longleftrightarrow> Neighbor_i f = 0 \<or> Neighbor_j f = 0) \<and>
   (sc0 f = Inl DivisionByZero \<longleftrightarrow> Neighbor_i f = 0 \<or> Neighbor_j f = 0) \<and>
   (0 < Neighbor_i f \<and> 0 < Neighbor_j f \<longrightarrow>
      sc2 f = Inr (3 * (real (Neighbor_i f) + real (Neighbor_j f))
                     / (real (Neighbor_i f) * real (Neighbor_j f))) \<and>
      sc0 f = Inr (3 * (real (Neighbor_i f) + real (Neighbor_j f))
                     / (real (Neighbor_i f) * real (Neighbor_j f))) \<and>
      (\<forall>s. StretchingFactor (nDim kj) (CCentJSTPB_Flow.Param_p kj) f = Inr s \<longrightarrow>
           (\<exists>r. CCentJSTPB_Flow_ComputeResidual kj f out = Inr r)) \<and>
      (\<forall>s. StretchingFactor (nDim kl) (CCentLaxPB_Flow.Param_p kl) f = Inr s \<longrightarrow>
           (\<exists>r. CCentLaxPB_Flow_ComputeResidual kl f out = Inr r))) \<and>
   (Neighbor_i f = 0 \<or> Neighbor_j f = 0 \<longrightarrow>
      (\<exists>e. CCentJSTPB_Flow_ComputeResidual kj f out = Inl e) \<and>
      (\<exists>e. CCentLaxPB_Flow_ComputeResidual kl f out = Inl e))"
proof -
  have a: "sc2 f = Inl DivisionByZero \<longleftrightarrow> Neighbor_i f = 0 \<or> Neighbor_j f = 0"
    by (simp add: sc2_eq)
  have b: "0 < Neighbor_i f \<and> 0 < Neighbor_j f \<longrightarrow>
      sc2 f = Inr (3 * (real (Neighbor_i f) + real (Neighbor_j f))
                     / (real (Neighbor_i f) * real (Neighbor_j f)))"
    by (simp add: sc2_eq)
  have c: "\<exists>r. CCentJSTPB_Flow_ComputeResidual kj f out = Inr r"
    if "0 < Neighbor_i f \<and> 0 < Neighbor_j f"
      "StretchingFactor (nDim kj) (CCentJSTPB_Flow.Param_p kj) f = Inr s" for s
    using that jst_dissipation_neighbors [of kj f s "CCentJSTPB_Flow_central kj f out"]
    by (simp add: CCentJSTPB_Flow_ComputeResidual_def)
  have d: "\<exists>r. CCentLaxPB_Flow_ComputeResidual kl f out = Inr r"
    if "0 < Neighbor_i f \<and> 0 < Neighbor_j f"
      "StretchingFactor (nDim kl) (CCentLaxPB_Flow.Param_p kl) f = Inr s" for s
    using that lax_dissipation_neighbors [of kl f s "CCentLaxPB_Flow_central kl f out"]
    by (simp add: CCentLaxPB_Flow_ComputeResidual_def)
  have e: "(\<exists>e. CCentJSTPB_Flow_ComputeResidual kj f out = Inl e) \<and>
      (\<exists>e. CCentLaxPB_Flow_ComputeResidual kl f out = Inl e)"
    if "Neighbor_i f = 0 \<or> Neighbor_j f = 0"
    using that
    by (simp add: CCentJSTPB_Flow_ComputeResidual_def CCentLaxPB_Flow_ComputeResidual_def
          jst_dissipation_no_neighbor lax_dissipation_no_neighbor)
  from a b c d e show ?thesis
    unfolding sc0_eq by blast
qed

theorem neighbor_scaling_unguarded_witness:
  "0 < Neighbor_i face_0 \<and> 0 < Neighbor_j face_0 \<and> sc2 face_0 = Inr 2 \<and> sc0 face_0 = Inr 2 \<and>
   Neighbor_i face_alone = 0 \<and> sc2 face_alone = Inl DivisionByZero \<and>
   sc0 face_alone = Inl DivisionByZero"
proof -
  have n: "Neighbor_i face_0 = 3" "Neighbor_j face_0 = 3" "Neighbor_i face_alone = 0"
    by (simp_all add: face_0_def face_alone_def)
  from neighbor_scaling_unguarded [of face_0] neighbor_scaling_unguarded [of face_alone]
  show ?thesis
    by (simp add: n)
qed

section \<open>Gravity and the Froude number\<close>

lemma upwind_members_not_read:
  "CUpwPB_Flow_ComputeResidual (k\<lparr>CUpwPB_Flow.gravity := g, CUpwPB_Flow.Froude := fr\<rparr>) f out
     = CUpwPB_Flow_ComputeResidual k f out"
  by (simp add: CUpwPB_Flow_ComputeResidual_def Let_def)

lemma jst_members_not_read:
  "CCentJSTPB_Flow_ComputeResidual
     (k\<lparr>CCentJSTPB_Flow.gravity := g, CCentJSTPB_Flow.Froude := fr\<rparr>) f out
     = CCentJSTPB_Flow_ComputeResidual k f out"
proof -
  have c: "CCentJSTPB_Flow_central
      (k\<lparr>CCentJSTPB_Flow.gravity := g, CCentJSTPB_Flow.Froude := fr\<rparr>) f out
      = CCentJSTPB_Flow_central k f out"
    by (simp add: CCentJSTPB_Flow_central_def Let_def)
  have e: "Epsilon_2 (k\<lparr>CCentJSTPB_Flow.gravity := g, CCentJSTPB_Flow.Froude := fr\<rparr>) f sc
      = Epsilon_2 k f sc"
    "Epsilon_4 (k\<lparr>CCentJSTPB_Flow.gravity := g, CCentJSTPB_Flow.Froude := fr\<rparr>) f sc
      = Epsilon_4 k f sc" for sc
    by (simp_all add: Epsilon_2_def Epsilon_4_def)
  have d: "CCentJSTPB_Flow_dissipation
      (k\<lparr>CCentJSTPB_Flow.gravity := g, CCentJSTPB_Flow.Froude := fr\<rparr>) f out'
      = CCentJSTPB_Flow_dissipation k f out'" for out'
    unfolding CCentJSTPB_Flow_dissipation_def Let_def by (simp add: e cong: if_cong)
  show ?thesis
    by (simp add: CCentJSTPB_Flow_ComputeResidual_def c d)
qed

lemma lax_members_not_read:
  "CCentLaxPB_Flow_ComputeResidual
     (k\<lparr>CCentLaxPB_Flow.gravity := g, CCentLaxPB_Flow.Froude := fr\<rparr>) f out
     = CCentLaxPB_Flow_ComputeResidual k f out"
proof -
  have c: "CCentLaxPB_Flow_central
      (k\<lparr>CCentLaxPB_Flow.gravity := g, CCentLaxPB_Flow.Froude := fr\<rparr>) f out
      = CCentLaxPB_Flow_central k f out"
    by (simp add: CCentLaxPB_Flow_central_def Let_def)
  have e: "Epsilon_0 (k\<lparr>CCentLaxPB_Flow.gravity := g, CCentLaxPB_Flow.Froude := fr\<rparr>) sc
      = Epsilon_0 k sc" for sc
    by (simp add: Epsilon_0_def)
  have d: "CCentLaxPB_Flow_dissipation
      (k\<lparr>CCentLaxPB_Flow.gravity := g, CCentLaxPB_Flow.Froude := fr\<rparr>) f out'
      = CCentLaxPB_Flow_dissipation k f out'" for out'
    unfolding CCentLaxPB_Flow_dissipation_def Let_def by (simp add: e cong: if_cong)
  show ?thesis
    by (simp add: CCentLaxPB_Flow_ComputeResidual_def c d)
qed

text \<open>
  C10. For the upwind, the JST and the Lax kernel: two calls on the same face and the
  same output arrays, from kernels constructed from configurations that differ only in
  the gravity flag and the Froude number, give the same residual and Jacobians; and
  overwriting the two stored members of any kernel changes no output.
\<close>

theorem gravity_froude_not_read:
  "CUpwPB_Flow_ComputeResidual
     (CUpwPB_Flow n m (config\<lparr>GetGravityForce := g, GetFroude := fr\<rparr>)) f out
     = CUpwPB_Flow_ComputeResidual (CUpwPB_Flow n m config) f out \<and>
   CCentJSTPB_Flow_ComputeResidual
     (CCentJSTPB_Flow n m (config\<lparr>GetGravityForce := g, GetFroude := fr\<rparr>)) f out
     = CCentJSTPB_Flow_ComputeResidual (CCentJSTPB_Flow n m config) f out \<and>
   CCentLaxPB_Flow_ComputeResidual
     (CCentLaxPB_Flow n m (config\<lparr>GetGravityForce := g, GetFroude := fr\<rparr>)) f out
     = CCentLaxPB_Flow_ComputeResidual (CCentLaxPB_Flow n m config) f out \<and>
   CUpwPB_Flow_ComputeResidual (ku\<lparr>CUpwPB_Flow.gravity := g, CUpwPB_Flow.Froude := fr\<rparr>) f out
     = CUpwPB_Flow_ComputeResidual ku f out \<and>
   CCentJSTPB_Flow_ComputeResidual
     (kj\<lparr>CCentJSTPB_Flow.gravity := g, CCentJSTPB_Flow.Froude := fr\<rparr>) f out
     = CCentJSTPB_Flow_ComputeResidual kj f out \<and>
   CCentLaxPB_Flow_ComputeResidual
     (kl\<lparr>CCentLaxPB_Flow.gravity := g, CCentLaxPB_Flow.Froude := fr\<rparr>) f out
     = CCentLaxPB_Flow_ComputeResidual kl f out"
proof -
  have cu: "CUpwPB_Flow n m (config\<lparr>GetGravityForce := g, GetFroude := fr\<rparr>)
      = (CUpwPB_Flow n m config)\<lparr>CUpwPB_Flow.gravity := g, CUpwPB_Flow.Froude := fr\<rparr>"
    by (simp add: CUpwPB_Flow_def)
  have cj: "CCentJSTPB_Flow n m (config\<lparr>GetGravityForce := g, GetFroude := fr\<rparr>)
      = (CCentJSTPB_Flow n m config)\<lparr>CCentJSTPB_Flow.gravity := g, CCentJSTPB_Flow.Froude := fr\<rparr>"
    by (simp add: CCentJSTPB_Flow_def)
  have cl: "CCentLaxPB_Flow n m (config\<lparr>GetGravityForce := g, GetFroude := fr\<rparr>)
      = (CCentLaxPB_Flow n m config)\<lparr>CCentLaxPB_Flow.gravity := g, CCentLaxPB_Flow.Froude := fr\<rparr>"
    by (simp add: CCentLaxPB_Flow_def)
  show ?thesis
    unfolding cu cj cl
    by (simp only: upwind_members_not_read jst_members_not_read lax_members_not_read)
qed

theorem gravity_froude_not_read_witness:
  "CUpwPB_Flow_ComputeResidual
     (CUpwPB_Flow 2 2 (config_0\<lparr>GetGravityForce := True, GetFroude := 7\<rparr>)) face_0 out_0
     = CUpwPB_Flow_ComputeResidual (CUpwPB_Flow 2 2 config_0) face_0 out_0 \<and>
   CCentJSTPB_Flow_ComputeResidual
     (CCentJSTPB_Flow 2 2 (config_0\<lparr>GetGravityForce := True, GetFroude := 7\<rparr>)) face_0 out_0
     = CCentJSTPB_Flow_ComputeResidual (CCentJSTPB_Flow 2 2 config_0) face_0 out_0 \<and>
   CCentLaxPB_Flow_ComputeResidual
     (CCentLaxPB_Flow 2 2 (config_0\<lparr>GetGravityForce := True, GetFroude := 7\<rparr>)) face_0 out_0
     = CCentLaxPB_Flow_ComputeResidual (CCentLaxPB_Flow 2 2 config_0) face_0 out_0"
  using gravity_froude_not_read
    [where n = 2 and m = 2 and config = config_0 and g = True and fr = 7 and f = face_0
       and out = out_0]
  by blast

section \<open>The JST kernel\<close>

lemma jst_central_residual:
  "val_residual (CCentJSTPB_Flow_central k f out) =
     for_upto (nVar k) (\<lambda>iVar r. r[iVar :=
       GetInviscidPBProjFlux (nDim k) (MeanDensity (nDim k) f) (MeanVelocity (nDim k) f)
         (MeanPressure f) (Normal f) ! iVar]) (val_residual out)"
  by (simp add: CCentJSTPB_Flow_central_def Let_def)

lemma jst_central_explicit:
  "\<not> CCentJSTPB_Flow.implicit k \<Longrightarrow>
   val_Jacobian_i (CCentJSTPB_Flow_central k f out) = val_Jacobian_i out \<and>
   val_Jacobian_j (CCentJSTPB_Flow_central k f out) = val_Jacobian_j out"
  by (simp add: CCentJSTPB_Flow_central_def Let_def)

lemma jst_central_implicit:
  "CCentJSTPB_Flow.implicit k \<Longrightarrow>
   val_Jacobian_i (CCentJSTPB_Flow_central k f out) =
     GetInviscidPBProjJac (nDim k) (MeanDensity (nDim k) f) (MeanVelocity (nDim k) f)
       (Normal f) 0.5 (val_Jacobian_i out) \<and>
   val_Jacobian_j (CCentJSTPB_Flow_central k f out) =
     for_upto (nVar k) (\<lambda>iVar J. for_upto (nVar k) (\<lambda>jVar J.
       J[iVar := (J ! iVar)[jVar :=
         GetInviscidPBProjJac (nDim k) (MeanDensity (nDim k) f) (MeanVelocity (nDim k) f)
           (Normal f) 0.5 (val_Jacobian_i out) ! iVar ! jVar]]) J) (val_Jacobian_j out)"
  by (simp add: CCentJSTPB_Flow_central_def Let_def)

lemma jst_central_ok:
  assumes "call_ok k f out"
  shows "length (val_residual (CCentJSTPB_Flow_central k f out)) = nVar k"
    and "mat_ok (nVar k) (val_Jacobian_i (CCentJSTPB_Flow_central k f out))"
    and "mat_ok (nVar k) (val_Jacobian_j (CCentJSTPB_Flow_central k f out))"
proof -
  from assms have n: "nVar k = nDim k" and r: "length (val_residual out) = nVar k"
    and i: "mat_ok (nVar k) (val_Jacobian_i out)" and j: "mat_ok (nVar k) (val_Jacobian_j out)"
    by (auto simp add: call_ok_def)
  show "length (val_residual (CCentJSTPB_Flow_central k f out)) = nVar k"
    by (simp add: jst_central_residual r)
  show "mat_ok (nVar k) (val_Jacobian_i (CCentJSTPB_Flow_central k f out))"
    using i n
    by (cases "CCentJSTPB_Flow.implicit k")
       (simp_all add: jst_central_implicit jst_central_explicit GetInviscidPBProjJac_ok)
  show "mat_ok (nVar k) (val_Jacobian_j (CCentJSTPB_Flow_central k f out))"
    using j
    by (cases "CCentJSTPB_Flow.implicit k")
       (simp_all add: jst_central_implicit jst_central_explicit mat_ok_assign)
qed

lemma jst_dissipation_value:
  assumes "StretchingFactor (nDim k) (CCentJSTPB_Flow.Param_p k) f = Inr stretch"
      and "sc2 f = Inr sc"
  shows "CCentJSTPB_Flow_dissipation k f out = Inr
     \<lparr>val_residual = for_upto (nVar k) (\<lambda>iVar r. r[iVar := r ! iVar +
         (Epsilon_2 k f sc * (map (\<lambda>iVar. U_i f ! iVar - U_j f ! iVar) [0..<nVar k]) ! iVar
          - Epsilon_4 k f sc
              * (map (\<lambda>iVar. Und_Lapl_i f ! iVar - Und_Lapl_j f ! iVar) [0..<nVar k]) ! iVar)
           * stretch * MeanLambda (nDim k) f]) (val_residual out),
      val_Jacobian_i =
        (if CCentJSTPB_Flow.implicit k
         then for_upto (nVar k) (\<lambda>iVar J. J[iVar := (J ! iVar)[iVar := J ! iVar ! iVar +
                (Epsilon_2 k f sc + Epsilon_4 k f sc * real (Neighbor_i f + 1))
                  * stretch * MeanLambda (nDim k) f]]) (val_Jacobian_i out)
         else val_Jacobian_i out),
      val_Jacobian_j =
        (if CCentJSTPB_Flow.implicit k
         then for_upto (nVar k) (\<lambda>iVar J. J[iVar := (J ! iVar)[iVar := J ! iVar ! iVar -
                (Epsilon_2 k f sc + Epsilon_4 k f sc * real (Neighbor_j f + 1))
                  * stretch * MeanLambda (nDim k) f]]) (val_Jacobian_j out)
         else val_Jacobian_j out)\<rparr>"
  using assms by (simp add: CCentJSTPB_Flow_dissipation_def bind_err_def Let_def)

lemma jst_dissipation_residual:
  assumes "CCentJSTPB_Flow_dissipation k f out = Inr r"
      and "StretchingFactor (nDim k) (CCentJSTPB_Flow.Param_p k) f = Inr stretch"
      and "sc2 f = Inr sc"
      and "length (val_residual out) = nVar k" and "iVar < nVar k"
  shows "val_residual r ! iVar = val_residual out ! iVar +
           (Epsilon_2 k f sc * (U_i f ! iVar - U_j f ! iVar)
            - Epsilon_4 k f sc * (Und_Lapl_i f ! iVar - Und_Lapl_j f ! iVar))
             * stretch * MeanLambda (nDim k) f"
proof -
  from assms(1) jst_dissipation_value [OF assms(2,3), of out]
  have "val_residual r = for_upto (nVar k) (\<lambda>iVar r. r[iVar := r ! iVar +
         (Epsilon_2 k f sc * (map (\<lambda>iVar. U_i f ! iVar - U_j f ! iVar) [0..<nVar k]) ! iVar
          - Epsilon_4 k f sc
              * (map (\<lambda>iVar. Und_Lapl_i f ! iVar - Und_Lapl_j f ! iVar) [0..<nVar k]) ! iVar)
           * stretch * MeanLambda (nDim k) f]) (val_residual out)"
    by auto
  with assms(4,5) show ?thesis
    by (simp add: nth_for_upto_add)
qed

lemma jst_dissipation_jacobians:
  assumes "CCentJSTPB_Flow_dissipation k f out = Inr r"
      and "StretchingFactor (nDim k) (CCentJSTPB_Flow.Param_p k) f = Inr stretch"
      and "sc2 f = Inr sc"
      and "CCentJSTPB_Flow.implicit k"
      and "mat_ok (nVar k) (val_Jacobian_i out)" and "mat_ok (nVar k) (val_Jacobian_j out)"
  shows "val_Jacobian_i r ! a ! b =
           (if a < nVar k \<and> b = a
            then val_Jacobian_i out ! a ! a
                 + (Epsilon_2 k f sc + Epsilon_4 k f sc * real (Neighbor_i f + 1))
                     * stretch * MeanLambda (nDim k) f
            else val_Jacobian_i out ! a ! b)"
    and "val_Jacobian_j r ! a ! b =
           (if a < nVar k \<and> b = a
            then val_Jacobian_j out ! a ! a
                 - (Epsilon_2 k f sc + Epsilon_4 k f sc * real (Neighbor_j f + 1))
                     * stretch * MeanLambda (nDim k) f
            else val_Jacobian_j out ! a ! b)"
proof -
  from assms(1,4) jst_dissipation_value [OF assms(2,3), of out]
  have i: "val_Jacobian_i r =
      for_upto (nVar k) (\<lambda>iVar J. J[iVar := (J ! iVar)[iVar := J ! iVar ! iVar +
        (Epsilon_2 k f sc + Epsilon_4 k f sc * real (Neighbor_i f + 1))
          * stretch * MeanLambda (nDim k) f]]) (val_Jacobian_i out)"
    and j: "val_Jacobian_j r =
      for_upto (nVar k) (\<lambda>iVar J. J[iVar := (J ! iVar)[iVar := J ! iVar ! iVar -
        (Epsilon_2 k f sc + Epsilon_4 k f sc * real (Neighbor_j f + 1))
          * stretch * MeanLambda (nDim k) f]]) (val_Jacobian_j out)"
    by auto
  show "val_Jacobian_i r ! a ! b =
           (if a < nVar k \<and> b = a
            then val_Jacobian_i out ! a ! a
                 + (Epsilon_2 k f sc + Epsilon_4 k f sc * real (Neighbor_i f + 1))
                     * stretch * MeanLambda (nDim k) f
            else val_Jacobian_i out ! a ! b)"
    unfolding i by (rule diag_add_entry [OF assms(5)])
  show "val_Jacobian_j r ! a ! b =
           (if a < nVar k \<and> b = a
            then val_Jacobian_j out ! a ! a
                 - (Epsilon_2 k f sc + Epsilon_4 k f sc * real (Neighbor_j f + 1))
                     * stretch * MeanLambda (nDim k) f
            else val_Jacobian_j out ! a ! b)"
    unfolding j by (rule diag_sub_entry [OF assms(6)])
qed

lemma sum_upto_2: "(\<Sum>i<2. g i) = g 0 + (g (Suc 0) :: real)"
  by (simp add: numeral_2_eq_2)

lemma sc2_spec: "0 < Neighbor_i f \<Longrightarrow> 0 < Neighbor_j f \<Longrightarrow> sc2 f = Inr (spec_sc f)"
  by (simp add: sc2_eq spec_sc_def)

lemma Epsilon_spec:
  "Epsilon_2 k f (spec_sc f) = spec_eps2 k f"
  "Epsilon_4 k f (spec_sc f) = spec_eps4 k f"
  by (simp_all add: Epsilon_2_def Epsilon_4_def spec_eps2_def spec_eps4_def power2_eq_square)

lemma jst_returns:
  assumes "StretchingFactor (nDim k) (CCentJSTPB_Flow.Param_p k) f = Inr stretch"
      and "0 < Neighbor_i f" and "0 < Neighbor_j f"
  shows "\<exists>r. CCentJSTPB_Flow_ComputeResidual k f out = Inr r"
  using jst_dissipation_value [OF assms(1) sc2_spec [OF assms(2,3)]]
  by (simp add: CCentJSTPB_Flow_ComputeResidual_def)

lemma call_ok_jst_0: "call_ok (CCentJSTPB_Flow 2 2 config_0) face_0 out_0"
  by (simp add: call_ok_def mat_ok_def CCentJSTPB_Flow_def face_0_def out_0_def less_Suc_eq
        numeral_2_eq_2)

lemma face_0_flux:
  "GetInviscidPBProjFlux 2 (MeanDensity 2 face_0) (MeanVelocity 2 face_0) (MeanPressure face_0)
     (Normal face_0) ! 0 = 61 / 4"
  by (simp add: GetInviscidPBProjFlux_entry sum_upto_2 MeanDensity_def DensityInc_i_def
        DensityInc_j_def MeanPressure_def Pressure_i_def Pressure_j_def)
     (simp add: face_0_def)

lemma jst_0_values:
  "nDim (CCentJSTPB_Flow 2 2 config_0) = 2" "nVar (CCentJSTPB_Flow 2 2 config_0) = 2"
  "CCentJSTPB_Flow.implicit (CCentJSTPB_Flow 2 2 config_0)"
  "spec_sc face_0 = 2"
  "spec_eps2 (CCentJSTPB_Flow 2 2 config_0) face_0 = 1"
  "spec_eps4 (CCentJSTPB_Flow 2 2 config_0) face_0 = 1"
  by (simp_all add: CCentJSTPB_Flow_def config_0_def spec_eps2_def spec_eps4_def spec_sc_def
        face_0_def)

lemma jst_0_central:
  "val_residual (CCentJSTPB_Flow_central (CCentJSTPB_Flow 2 2 config_0) face_0 out_0) ! 0 = 61 / 4"
  by (simp add: jst_central_residual jst_0_values nth_for_upto_assign out_0_def face_0_flux)

lemma jst_central_jacobian_entry:
  assumes "call_ok k f out" and "CCentJSTPB_Flow.implicit k" and "a < nVar k" and "b < nVar k"
  shows "val_Jacobian_i (CCentJSTPB_Flow_central k f out) ! a ! b =
           0.5 * MeanDensity (nDim k) f *
             ((if a = b then (\<Sum>i<nDim k. MeanVelocity (nDim k) f ! i * Normal f ! i) else 0)
              + MeanVelocity (nDim k) f ! a * Normal f ! b)"
    and "val_Jacobian_j (CCentJSTPB_Flow_central k f out) ! a ! b =
           val_Jacobian_i (CCentJSTPB_Flow_central k f out) ! a ! b"
proof -
  from assms(1) have n: "nVar k = nDim k"
    and i: "mat_ok (nDim k) (val_Jacobian_i out)" and j: "mat_ok (nVar k) (val_Jacobian_j out)"
    by (auto simp add: call_ok_def)
  from assms(3,4) n have ab: "a < nDim k" "b < nDim k"
    by simp_all
  show "val_Jacobian_i (CCentJSTPB_Flow_central k f out) ! a ! b =
           0.5 * MeanDensity (nDim k) f *
             ((if a = b then (\<Sum>i<nDim k. MeanVelocity (nDim k) f ! i * Normal f ! i) else 0)
              + MeanVelocity (nDim k) f ! a * Normal f ! b)"
    unfolding conjunct1 [OF jst_central_implicit [OF assms(2)]]
    by (rule GetInviscidPBProjJac_entry [OF i ab])
  show "val_Jacobian_j (CCentJSTPB_Flow_central k f out) ! a ! b =
           val_Jacobian_i (CCentJSTPB_Flow_central k f out) ! a ! b"
    unfolding conjunct2 [OF jst_central_implicit [OF assms(2)]]
      conjunct1 [OF jst_central_implicit [OF assms(2)]]
    by (rule assign_entry [OF j assms(3,4)])
qed

lemma jst_0_central_jacobian:
  "val_Jacobian_i (CCentJSTPB_Flow_central (CCentJSTPB_Flow 2 2 config_0) face_0 out_0) ! 0 ! 0
     = 1 / 2"
  "val_Jacobian_j (CCentJSTPB_Flow_central (CCentJSTPB_Flow 2 2 config_0) face_0 out_0) ! 0 ! 0
     = 1 / 2"
  "val_Jacobian_i (CCentJSTPB_Flow_central (CCentJSTPB_Flow 2 2 config_0) face_0 out_0) ! 0 ! Suc 0
     = 0"
  "val_Jacobian_j (CCentJSTPB_Flow_central (CCentJSTPB_Flow 2 2 config_0) face_0 out_0) ! 0 ! Suc 0
     = 0"
  by (simp_all add: jst_central_jacobian_entry [OF call_ok_jst_0] jst_0_values sum_upto_2
        MeanDensity_def DensityInc_i_def DensityInc_j_def)
     (simp_all add: face_0_def)

text \<open>
  C3. For every call of \<^verbatim>\<open>CCentJSTPB_Flow::ComputeResidual\<close> whose stretching factor is
  defined and whose neighbour counts are positive, the call returns, and component
  \<open>iVar\<close> of the residual is the one after the central flux step plus
  \<open>(\<epsilon>2 \<Delta>U - \<epsilon>4 \<Delta>Laplacian) stretch meanLambda\<close>, with \<open>\<Delta>U = U_i - U_j\<close>,
  \<open>\<Delta>Laplacian = laplacian_i - laplacian_j\<close> and the coefficients of the specification;
  the residual after the central flux step is the projected flux of the mean state.
\<close>

theorem jst_residual_increment:
  assumes "call_ok k f out"
      and "StretchingFactor (nDim k) (CCentJSTPB_Flow.Param_p k) f = Inr stretch"
      and "0 < Neighbor_i f" and "0 < Neighbor_j f" and "iVar < nVar k"
  shows "\<exists>r. CCentJSTPB_Flow_ComputeResidual k f out = Inr r \<and>
           val_residual r ! iVar =
             val_residual (CCentJSTPB_Flow_central k f out) ! iVar
             + (spec_eps2 k f * (U_i f ! iVar - U_j f ! iVar)
                - spec_eps4 k f * (Und_Lapl_i f ! iVar - Und_Lapl_j f ! iVar))
               * stretch * MeanLambda (nDim k) f \<and>
           val_residual (CCentJSTPB_Flow_central k f out) ! iVar =
             GetInviscidPBProjFlux (nDim k) (MeanDensity (nDim k) f) (MeanVelocity (nDim k) f)
               (MeanPressure f) (Normal f) ! iVar"
proof -
  from jst_returns [OF assms(2,3,4)]
  obtain r where r: "CCentJSTPB_Flow_ComputeResidual k f out = Inr r" ..
  then have d: "CCentJSTPB_Flow_dissipation k f (CCentJSTPB_Flow_central k f out) = Inr r"
    by (simp add: CCentJSTPB_Flow_ComputeResidual_def)
  from assms(1) have len: "length (val_residual out) = nVar k"
    by (simp add: call_ok_def)
  have c: "val_residual (CCentJSTPB_Flow_central k f out) ! iVar =
             GetInviscidPBProjFlux (nDim k) (MeanDensity (nDim k) f) (MeanVelocity (nDim k) f)
               (MeanPressure f) (Normal f) ! iVar"
    using len assms(5) by (simp add: jst_central_residual nth_for_upto_assign)
  from jst_dissipation_residual
    [OF d assms(2) sc2_spec [OF assms(3,4)] jst_central_ok(1) [OF assms(1)] assms(5)]
  have "val_residual r ! iVar =
             val_residual (CCentJSTPB_Flow_central k f out) ! iVar
             + (spec_eps2 k f * (U_i f ! iVar - U_j f ! iVar)
                - spec_eps4 k f * (Und_Lapl_i f ! iVar - Und_Lapl_j f ! iVar))
               * stretch * MeanLambda (nDim k) f"
    by (simp only: Epsilon_spec)
  with r c show ?thesis by blast
qed

theorem jst_residual_increment_witness:
  "call_ok (CCentJSTPB_Flow 2 2 config_0) face_0 out_0 \<and>
   StretchingFactor 2 (CCentJSTPB_Flow.Param_p (CCentJSTPB_Flow 2 2 config_0)) face_0 = Inr 2 \<and>
   0 < Neighbor_i face_0 \<and> 0 < Neighbor_j face_0 \<and>
   (\<exists>r. CCentJSTPB_Flow_ComputeResidual (CCentJSTPB_Flow 2 2 config_0) face_0 out_0 = Inr r \<and>
        val_residual r ! 0 = 45 / 4)"
proof -
  have s: "StretchingFactor (nDim (CCentJSTPB_Flow 2 2 config_0))
             (CCentJSTPB_Flow.Param_p (CCentJSTPB_Flow 2 2 config_0)) face_0 = Inr 2"
    by (simp add: jst_0_values face_0_stretch)
  have n: "0 < Neighbor_i face_0" "0 < Neighbor_j face_0"
    by (simp_all add: face_0_def)
  have i: "(0::nat) < nVar (CCentJSTPB_Flow 2 2 config_0)"
    by (simp add: jst_0_values)
  have v: "U_i face_0 ! 0 = 1" "U_j face_0 ! 0 = 0" "Und_Lapl_i face_0 ! 0 = 3"
    "Und_Lapl_j face_0 ! 0 = 0"
    by (simp_all add: face_0_def)
  from jst_residual_increment [OF call_ok_jst_0 s n i] show ?thesis
    by (auto simp add: call_ok_jst_0 face_0_stretch n jst_0_values jst_0_central face_0_lambda v)
qed

text \<open>
  C4. For every call of \<^verbatim>\<open>CCentJSTPB_Flow::ComputeResidual\<close> in implicit mode whose
  stretching factor is defined and whose neighbour counts are positive, the dissipation
  step adds \<open>(\<epsilon>2 + \<epsilon>4 (n_i + 1)) stretch meanLambda\<close> to every diagonal entry of the
  side-\<open>i\<close> Jacobian of the central flux step, subtracts
  \<open>(\<epsilon>2 + \<epsilon>4 (n_j + 1)) stretch meanLambda\<close> from every diagonal entry of the side-\<open>j\<close>
  Jacobian, and leaves every off-diagonal entry of both as it was.
\<close>

theorem jst_jacobian_diagonal:
  assumes "call_ok k f out" and "CCentJSTPB_Flow.implicit k"
      and "StretchingFactor (nDim k) (CCentJSTPB_Flow.Param_p k) f = Inr stretch"
      and "0 < Neighbor_i f" and "0 < Neighbor_j f"
  shows "\<exists>r. CCentJSTPB_Flow_ComputeResidual k f out = Inr r \<and>
           (\<forall>a. a < nVar k \<longrightarrow>
              val_Jacobian_i r ! a ! a =
                val_Jacobian_i (CCentJSTPB_Flow_central k f out) ! a ! a
                + (spec_eps2 k f + spec_eps4 k f * (real (Neighbor_i f) + 1))
                  * stretch * MeanLambda (nDim k) f \<and>
              val_Jacobian_j r ! a ! a =
                val_Jacobian_j (CCentJSTPB_Flow_central k f out) ! a ! a
                - (spec_eps2 k f + spec_eps4 k f * (real (Neighbor_j f) + 1))
                  * stretch * MeanLambda (nDim k) f) \<and>
           (\<forall>a b. a \<noteq> b \<longrightarrow>
              val_Jacobian_i r ! a ! b = val_Jacobian_i (CCentJSTPB_Flow_central k f out) ! a ! b \<and>
              val_Jacobian_j r ! a ! b = val_Jacobian_j (CCentJSTPB_Flow_central k f out) ! a ! b)"
proof -
  from jst_returns [OF assms(3,4,5)]
  obtain r where r: "CCentJSTPB_Flow_ComputeResidual k f out = Inr r" ..
  then have d: "CCentJSTPB_Flow_dissipation k f (CCentJSTPB_Flow_central k f out) = Inr r"
    by (simp add: CCentJSTPB_Flow_ComputeResidual_def)
  note e = jst_dissipation_jacobians
    [OF d assms(3) sc2_spec [OF assms(4,5)] assms(2) jst_central_ok(2,3) [OF assms(1)],
     unfolded Epsilon_spec]
  have diag: "val_Jacobian_i r ! a ! a =
                val_Jacobian_i (CCentJSTPB_Flow_central k f out) ! a ! a
                + (spec_eps2 k f + spec_eps4 k f * (real (Neighbor_i f) + 1))
                  * stretch * MeanLambda (nDim k) f \<and>
              val_Jacobian_j r ! a ! a =
                val_Jacobian_j (CCentJSTPB_Flow_central k f out) ! a ! a
                - (spec_eps2 k f + spec_eps4 k f * (real (Neighbor_j f) + 1))
                  * stretch * MeanLambda (nDim k) f" if "a < nVar k" for a
    using that e [of a a] by simp
  have off: "val_Jacobian_i r ! a ! b = val_Jacobian_i (CCentJSTPB_Flow_central k f out) ! a ! b \<and>
     val_Jacobian_j r ! a ! b = val_Jacobian_j (CCentJSTPB_Flow_central k f out) ! a ! b"
    if "a \<noteq> b" for a b
    using that e [of a b] by simp
  from r diag off show ?thesis by blast
qed

theorem jst_jacobian_diagonal_witness:
  "call_ok (CCentJSTPB_Flow 2 2 config_0) face_0 out_0 \<and>
   CCentJSTPB_Flow.implicit (CCentJSTPB_Flow 2 2 config_0) \<and>
   StretchingFactor 2 (CCentJSTPB_Flow.Param_p (CCentJSTPB_Flow 2 2 config_0)) face_0 = Inr 2 \<and>
   0 < Neighbor_i face_0 \<and> 0 < Neighbor_j face_0 \<and>
   (\<exists>r. CCentJSTPB_Flow_ComputeResidual (CCentJSTPB_Flow 2 2 config_0) face_0 out_0 = Inr r \<and>
        val_Jacobian_i r ! 0 ! 0 = 21 / 2 \<and> val_Jacobian_j r ! 0 ! 0 = - 19 / 2 \<and>
        val_Jacobian_i r ! 0 ! 1 = 0 \<and> val_Jacobian_j r ! 0 ! 1 = 0)"
proof -
  have s: "StretchingFactor (nDim (CCentJSTPB_Flow 2 2 config_0))
             (CCentJSTPB_Flow.Param_p (CCentJSTPB_Flow 2 2 config_0)) face_0 = Inr 2"
    by (simp add: jst_0_values face_0_stretch)
  have n: "0 < Neighbor_i face_0" "0 < Neighbor_j face_0"
    by (simp_all add: face_0_def)
  have v: "Neighbor_i face_0 = 3" "Neighbor_j face_0 = 3"
    by (simp_all add: face_0_def)
  from jst_jacobian_diagonal [OF call_ok_jst_0 jst_0_values(3) s n]
  obtain r where r: "CCentJSTPB_Flow_ComputeResidual (CCentJSTPB_Flow 2 2 config_0) face_0 out_0
      = Inr r"
    and d: "\<forall>a. a < nVar (CCentJSTPB_Flow 2 2 config_0) \<longrightarrow>
              val_Jacobian_i r ! a ! a =
                val_Jacobian_i (CCentJSTPB_Flow_central (CCentJSTPB_Flow 2 2 config_0) face_0 out_0) ! a ! a
                + (spec_eps2 (CCentJSTPB_Flow 2 2 config_0) face_0
                   + spec_eps4 (CCentJSTPB_Flow 2 2 config_0) face_0 * (real (Neighbor_i face_0) + 1))
                  * 2 * MeanLambda (nDim (CCentJSTPB_Flow 2 2 config_0)) face_0 \<and>
              val_Jacobian_j r ! a ! a =
                val_Jacobian_j (CCentJSTPB_Flow_central (CCentJSTPB_Flow 2 2 config_0) face_0 out_0) ! a ! a
                - (spec_eps2 (CCentJSTPB_Flow 2 2 config_0) face_0
                   + spec_eps4 (CCentJSTPB_Flow 2 2 config_0) face_0 * (real (Neighbor_j face_0) + 1))
                  * 2 * MeanLambda (nDim (CCentJSTPB_Flow 2 2 config_0)) face_0"
    and o: "\<forall>a b. a \<noteq> b \<longrightarrow>
              val_Jacobian_i r ! a ! b =
                val_Jacobian_i (CCentJSTPB_Flow_central (CCentJSTPB_Flow 2 2 config_0) face_0 out_0) ! a ! b \<and>
              val_Jacobian_j r ! a ! b =
                val_Jacobian_j (CCentJSTPB_Flow_central (CCentJSTPB_Flow 2 2 config_0) face_0 out_0) ! a ! b"
    by blast
  from d [rule_format, of 0] have d0: "val_Jacobian_i r ! 0 ! 0 = 21 / 2"
    "val_Jacobian_j r ! 0 ! 0 = - 19 / 2"
    by (simp_all add: jst_0_values jst_0_central_jacobian face_0_lambda v)
  from o [rule_format, of 0 1] have o0: "val_Jacobian_i r ! 0 ! 1 = 0"
    "val_Jacobian_j r ! 0 ! 1 = 0"
    by (simp_all add: jst_0_central_jacobian)
  from r d0 o0 show ?thesis
    by (simp add: call_ok_jst_0 jst_0_values face_0_stretch n)
qed

section \<open>The Lax kernel\<close>

lemma lax_central_residual:
  "val_residual (CCentLaxPB_Flow_central k f out) =
     for_upto (nVar k) (\<lambda>iVar r. r[iVar :=
       GetInviscidPBProjFlux (nDim k) (MeanDensity (nDim k) f) (MeanVelocity (nDim k) f)
         (MeanPressure f) (Normal f) ! iVar]) (val_residual out)"
  by (simp add: CCentLaxPB_Flow_central_def Let_def)

lemma lax_central_explicit:
  "\<not> CCentLaxPB_Flow.implicit k \<Longrightarrow>
   val_Jacobian_i (CCentLaxPB_Flow_central k f out) = val_Jacobian_i out \<and>
   val_Jacobian_j (CCentLaxPB_Flow_central k f out) = val_Jacobian_j out"
  by (simp add: CCentLaxPB_Flow_central_def Let_def)

lemma lax_central_implicit:
  "CCentLaxPB_Flow.implicit k \<Longrightarrow>
   val_Jacobian_i (CCentLaxPB_Flow_central k f out) =
     GetInviscidPBProjJac (nDim k) (MeanDensity (nDim k) f) (MeanVelocity (nDim k) f)
       (Normal f) 0.5 (val_Jacobian_i out) \<and>
   val_Jacobian_j (CCentLaxPB_Flow_central k f out) =
     for_upto (nVar k) (\<lambda>iVar J. for_upto (nVar k) (\<lambda>jVar J.
       J[iVar := (J ! iVar)[jVar :=
         GetInviscidPBProjJac (nDim k) (MeanDensity (nDim k) f) (MeanVelocity (nDim k) f)
           (Normal f) 0.5 (val_Jacobian_i out) ! iVar ! jVar]]) J) (val_Jacobian_j out)"
  by (simp add: CCentLaxPB_Flow_central_def Let_def)

lemma lax_central_ok:
  assumes "call_ok k f out"
  shows "length (val_residual (CCentLaxPB_Flow_central k f out)) = nVar k"
    and "mat_ok (nVar k) (val_Jacobian_i (CCentLaxPB_Flow_central k f out))"
    and "mat_ok (nVar k) (val_Jacobian_j (CCentLaxPB_Flow_central k f out))"
proof -
  from assms have n: "nVar k = nDim k" and r: "length (val_residual out) = nVar k"
    and i: "mat_ok (nVar k) (val_Jacobian_i out)" and j: "mat_ok (nVar k) (val_Jacobian_j out)"
    by (auto simp add: call_ok_def)
  show "length (val_residual (CCentLaxPB_Flow_central k f out)) = nVar k"
    by (simp add: lax_central_residual r)
  show "mat_ok (nVar k) (val_Jacobian_i (CCentLaxPB_Flow_central k f out))"
    using i n
    by (cases "CCentLaxPB_Flow.implicit k")
       (simp_all add: lax_central_implicit lax_central_explicit GetInviscidPBProjJac_ok)
  show "mat_ok (nVar k) (val_Jacobian_j (CCentLaxPB_Flow_central k f out))"
    using j
    by (cases "CCentLaxPB_Flow.implicit k")
       (simp_all add: lax_central_implicit lax_central_explicit mat_ok_assign)
qed

lemma lax_central_jacobian_entry:
  assumes "call_ok k f out" and "CCentLaxPB_Flow.implicit k" and "a < nVar k" and "b < nVar k"
  shows "val_Jacobian_i (CCentLaxPB_Flow_central k f out) ! a ! b =
           0.5 * MeanDensity (nDim k) f *
             ((if a = b then (\<Sum>i<nDim k. MeanVelocity (nDim k) f ! i * Normal f ! i) else 0)
              + MeanVelocity (nDim k) f ! a * Normal f ! b)"
    and "val_Jacobian_j (CCentLaxPB_Flow_central k f out) ! a ! b =
           val_Jacobian_i (CCentLaxPB_Flow_central k f out) ! a ! b"
proof -
  from assms(1) have n: "nVar k = nDim k"
    and i: "mat_ok (nDim k) (val_Jacobian_i out)" and j: "mat_ok (nVar k) (val_Jacobian_j out)"
    by (auto simp add: call_ok_def)
  from assms(3,4) n have ab: "a < nDim k" "b < nDim k"
    by simp_all
  show "val_Jacobian_i (CCentLaxPB_Flow_central k f out) ! a ! b =
           0.5 * MeanDensity (nDim k) f *
             ((if a = b then (\<Sum>i<nDim k. MeanVelocity (nDim k) f ! i * Normal f ! i) else 0)
              + MeanVelocity (nDim k) f ! a * Normal f ! b)"
    unfolding conjunct1 [OF lax_central_implicit [OF assms(2)]]
    by (rule GetInviscidPBProjJac_entry [OF i ab])
  show "val_Jacobian_j (CCentLaxPB_Flow_central k f out) ! a ! b =
           val_Jacobian_i (CCentLaxPB_Flow_central k f out) ! a ! b"
    unfolding conjunct2 [OF lax_central_implicit [OF assms(2)]]
      conjunct1 [OF lax_central_implicit [OF assms(2)]]
    by (rule assign_entry [OF j assms(3,4)])
qed

lemma Lax_U_nth:
  assumes "n \<le> 3" and "a < n"
  shows "Lax_U_i n f ! a = DensityInc_i n f * V_i f ! (a + 1)"
    and "Lax_U_j n f ! a = DensityInc_j n f * V_j f ! (a + 1)"
  using assms
  by (simp_all add: Lax_U_i_def Lax_U_j_def nth_for_upto_upd
        [where h = "\<lambda>iDim x. DensityInc_i n f * Velocity_i n f ! iDim"]
        nth_for_upto_upd [where h = "\<lambda>iDim x. DensityInc_j n f * Velocity_j n f ! iDim"])

lemma sc0_spec: "0 < Neighbor_i f \<Longrightarrow> 0 < Neighbor_j f \<Longrightarrow> sc0 f = Inr (spec_sc f)"
  by (simp add: sc0_eq sc2_spec)

lemma Epsilon_0_spec: "Epsilon_0 k (spec_sc f) = spec_eps0 k f"
  by (simp add: Epsilon_0_def spec_eps0_def)

lemma lax_dissipation_value:
  assumes "StretchingFactor (nDim k) (CCentLaxPB_Flow.Param_p k) f = Inr stretch"
      and "sc0 f = Inr sc"
  shows "CCentLaxPB_Flow_dissipation k f out = Inr
     \<lparr>val_residual = for_upto (nVar k) (\<lambda>iVar r. r[iVar := r ! iVar +
         Epsilon_0 k sc
           * (map (\<lambda>iVar. Lax_U_i (nDim k) f ! iVar - Lax_U_j (nDim k) f ! iVar) [0..<nVar k]) ! iVar
           * stretch * MeanLambda (nDim k) f]) (val_residual out),
      val_Jacobian_i =
        (if CCentLaxPB_Flow.implicit k
         then for_upto (nVar k) (\<lambda>iVar J. J[iVar := (J ! iVar)[iVar := J ! iVar ! iVar +
                Epsilon_0 k sc * stretch * MeanLambda (nDim k) f]]) (val_Jacobian_i out)
         else val_Jacobian_i out),
      val_Jacobian_j =
        (if CCentLaxPB_Flow.implicit k
         then for_upto (nVar k) (\<lambda>iVar J. J[iVar := (J ! iVar)[iVar := J ! iVar ! iVar -
                Epsilon_0 k sc * stretch * MeanLambda (nDim k) f]]) (val_Jacobian_j out)
         else val_Jacobian_j out)\<rparr>"
  using assms by (simp add: CCentLaxPB_Flow_dissipation_def bind_err_def Let_def)

lemma lax_returns:
  assumes "StretchingFactor (nDim k) (CCentLaxPB_Flow.Param_p k) f = Inr stretch"
      and "0 < Neighbor_i f" and "0 < Neighbor_j f"
  shows "\<exists>r. CCentLaxPB_Flow_ComputeResidual k f out = Inr r"
  using lax_dissipation_value [OF assms(1) sc0_spec [OF assms(2,3)]]
  by (simp add: CCentLaxPB_Flow_ComputeResidual_def)

lemma lax_dissipation_residual:
  assumes "CCentLaxPB_Flow_dissipation k f out = Inr r"
      and "StretchingFactor (nDim k) (CCentLaxPB_Flow.Param_p k) f = Inr stretch"
      and "sc0 f = Inr sc"
      and "length (val_residual out) = nVar k" and "iVar < nVar k"
      and "nVar k = nDim k" and "nDim k \<le> 3"
  shows "val_residual r ! iVar = val_residual out ! iVar +
           Epsilon_0 k sc
             * (DensityInc_i (nDim k) f * V_i f ! (iVar + 1)
                - DensityInc_j (nDim k) f * V_j f ! (iVar + 1))
             * stretch * MeanLambda (nDim k) f"
proof -
  from assms(1) lax_dissipation_value [OF assms(2,3), of out]
  have "val_residual r = for_upto (nVar k) (\<lambda>iVar r. r[iVar := r ! iVar +
         Epsilon_0 k sc
           * (map (\<lambda>iVar. Lax_U_i (nDim k) f ! iVar - Lax_U_j (nDim k) f ! iVar) [0..<nVar k]) ! iVar
           * stretch * MeanLambda (nDim k) f]) (val_residual out)"
    by auto
  moreover from assms(5,6) have "iVar < nDim k"
    by simp
  ultimately show ?thesis
    using assms(4,5,7) by (simp add: nth_for_upto_add Lax_U_nth)
qed

lemma lax_dissipation_jacobians:
  assumes "CCentLaxPB_Flow_dissipation k f out = Inr r"
      and "StretchingFactor (nDim k) (CCentLaxPB_Flow.Param_p k) f = Inr stretch"
      and "sc0 f = Inr sc"
      and "CCentLaxPB_Flow.implicit k"
      and "mat_ok (nVar k) (val_Jacobian_i out)" and "mat_ok (nVar k) (val_Jacobian_j out)"
  shows "val_Jacobian_i r ! a ! b =
           (if a < nVar k \<and> b = a
            then val_Jacobian_i out ! a ! a + Epsilon_0 k sc * stretch * MeanLambda (nDim k) f
            else val_Jacobian_i out ! a ! b)"
    and "val_Jacobian_j r ! a ! b =
           (if a < nVar k \<and> b = a
            then val_Jacobian_j out ! a ! a - Epsilon_0 k sc * stretch * MeanLambda (nDim k) f
            else val_Jacobian_j out ! a ! b)"
proof -
  from assms(1,4) lax_dissipation_value [OF assms(2,3), of out]
  have i: "val_Jacobian_i r =
      for_upto (nVar k) (\<lambda>iVar J. J[iVar := (J ! iVar)[iVar := J ! iVar ! iVar +
        Epsilon_0 k sc * stretch * MeanLambda (nDim k) f]]) (val_Jacobian_i out)"
    and j: "val_Jacobian_j r =
      for_upto (nVar k) (\<lambda>iVar J. J[iVar := (J ! iVar)[iVar := J ! iVar ! iVar -
        Epsilon_0 k sc * stretch * MeanLambda (nDim k) f]]) (val_Jacobian_j out)"
    by auto
  show "val_Jacobian_i r ! a ! b =
           (if a < nVar k \<and> b = a
            then val_Jacobian_i out ! a ! a + Epsilon_0 k sc * stretch * MeanLambda (nDim k) f
            else val_Jacobian_i out ! a ! b)"
    unfolding i by (rule diag_add_entry [OF assms(5)])
  show "val_Jacobian_j r ! a ! b =
           (if a < nVar k \<and> b = a
            then val_Jacobian_j out ! a ! a - Epsilon_0 k sc * stretch * MeanLambda (nDim k) f
            else val_Jacobian_j out ! a ! b)"
    unfolding j by (rule diag_sub_entry [OF assms(6)])
qed

lemma call_ok_lax_0: "call_ok (CCentLaxPB_Flow 2 2 config_0) face_0 out_0"
  by (simp add: call_ok_def mat_ok_def CCentLaxPB_Flow_def face_0_def out_0_def less_Suc_eq
        numeral_2_eq_2)

lemma lax_0_values:
  "nDim (CCentLaxPB_Flow 2 2 config_0) = 2" "nVar (CCentLaxPB_Flow 2 2 config_0) = 2"
  "CCentLaxPB_Flow.implicit (CCentLaxPB_Flow 2 2 config_0)"
  "spec_eps0 (CCentLaxPB_Flow 2 2 config_0) face_0 = 4 / 3"
  by (simp_all add: CCentLaxPB_Flow_def config_0_def spec_eps0_def spec_sc_def face_0_def)

lemma lax_0_central:
  "val_residual (CCentLaxPB_Flow_central (CCentLaxPB_Flow 2 2 config_0) face_0 out_0) ! 0 = 61 / 4"
  by (simp add: lax_central_residual lax_0_values nth_for_upto_assign out_0_def face_0_flux)

lemma lax_0_central_jacobian:
  "val_Jacobian_i (CCentLaxPB_Flow_central (CCentLaxPB_Flow 2 2 config_0) face_0 out_0) ! 0 ! 0
     = 1 / 2"
  "val_Jacobian_j (CCentLaxPB_Flow_central (CCentLaxPB_Flow 2 2 config_0) face_0 out_0) ! 0 ! 0
     = 1 / 2"
  by (simp_all add: lax_central_jacobian_entry [OF call_ok_lax_0] lax_0_values sum_upto_2
        MeanDensity_def DensityInc_i_def DensityInc_j_def)
     (simp_all add: face_0_def)

lemma lax_laplacians_not_read:
  "CCentLaxPB_Flow_ComputeResidual k (f\<lparr>Und_Lapl_i := x, Und_Lapl_j := y\<rparr>) out
     = CCentLaxPB_Flow_ComputeResidual k f out"
proof -
  let ?g = "f\<lparr>Und_Lapl_i := x, Und_Lapl_j := y\<rparr>"
  have v: "Velocity_i n ?g = Velocity_i n f" "Velocity_j n ?g = Velocity_j n f"
    "DensityInc_i n ?g = DensityInc_i n f" "DensityInc_j n ?g = DensityInc_j n f"
    "MeanPressure ?g = MeanPressure f" "sc0 ?g = sc0 f" for n
    by (simp_all add: Velocity_i_def Velocity_j_def DensityInc_i_def DensityInc_j_def
          MeanPressure_def Pressure_i_def Pressure_j_def sc0_def)
  have m: "MeanVelocity n ?g = MeanVelocity n f" "MeanDensity n ?g = MeanDensity n f"
    "Lax_U_i n ?g = Lax_U_i n f" "Lax_U_j n ?g = Lax_U_j n f"
    "ProjVelocity_i n ?g = ProjVelocity_i n f" "ProjVelocity_j n ?g = ProjVelocity_j n f" for n
    by (simp_all add: MeanVelocity_def MeanDensity_def Lax_U_i_def Lax_U_j_def
          ProjVelocity_i_def ProjVelocity_j_def v)
  have l: "MeanLambda n ?g = MeanLambda n f" for n
    by (simp add: MeanLambda_def Local_Lambda_i_def Local_Lambda_j_def m)
  have s: "StretchingFactor n p ?g = StretchingFactor n p f" for n p
    by (simp add: StretchingFactor_def Phi_i_def Phi_j_def l)
  have c: "CCentLaxPB_Flow_central k ?g out = CCentLaxPB_Flow_central k f out"
    unfolding CCentLaxPB_Flow_central_def Let_def by (simp add: v m cong: if_cong)
  have d: "CCentLaxPB_Flow_dissipation k ?g out' = CCentLaxPB_Flow_dissipation k f out'" for out'
    unfolding CCentLaxPB_Flow_dissipation_def Let_def by (simp add: v m l s cong: if_cong)
  show ?thesis
    by (simp add: CCentLaxPB_Flow_ComputeResidual_def c d)
qed

text \<open>
  C5. For every call of \<^verbatim>\<open>CCentLaxPB_Flow::ComputeResidual\<close> whose stretching factor is
  defined and whose neighbour counts are positive, the call returns, and component
  \<open>iVar\<close> of the residual is the one after the central flux step plus
  \<open>\<epsilon>0 \<Delta>U stretch meanLambda\<close>, where \<open>\<epsilon>0 = \<kappa>0 sc0 dim / 3\<close>,
  \<open>sc0 = 3 (n_i + n_j) / (n_i n_j)\<close> and \<open>\<Delta>U\<close> is the difference of the momenta
  (density times velocity) of the two sides; in implicit mode every diagonal entry of
  the side-\<open>i\<close> Jacobian is incremented by \<open>\<epsilon>0 stretch meanLambda\<close> and every diagonal
  entry of the side-\<open>j\<close> Jacobian decremented by it. There is no Laplacian term: the
  outputs do not depend on the undivided Laplacians.
\<close>

theorem lax_dissipation_terms:
  assumes "call_ok k f out"
      and "StretchingFactor (nDim k) (CCentLaxPB_Flow.Param_p k) f = Inr stretch"
      and "0 < Neighbor_i f" and "0 < Neighbor_j f"
  shows "\<exists>r. CCentLaxPB_Flow_ComputeResidual k f out = Inr r \<and>
           (\<forall>iVar. iVar < nVar k \<longrightarrow>
              val_residual r ! iVar =
                val_residual (CCentLaxPB_Flow_central k f out) ! iVar
                + spec_eps0 k f
                  * (DensityInc_i (nDim k) f * V_i f ! (iVar + 1)
                     - DensityInc_j (nDim k) f * V_j f ! (iVar + 1))
                  * stretch * MeanLambda (nDim k) f) \<and>
           (CCentLaxPB_Flow.implicit k \<longrightarrow>
              (\<forall>a. a < nVar k \<longrightarrow>
                 val_Jacobian_i r ! a ! a =
                   val_Jacobian_i (CCentLaxPB_Flow_central k f out) ! a ! a
                   + spec_eps0 k f * stretch * MeanLambda (nDim k) f \<and>
                 val_Jacobian_j r ! a ! a =
                   val_Jacobian_j (CCentLaxPB_Flow_central k f out) ! a ! a
                   - spec_eps0 k f * stretch * MeanLambda (nDim k) f)) \<and>
           CCentLaxPB_Flow_ComputeResidual k (f\<lparr>Und_Lapl_i := x, Und_Lapl_j := y\<rparr>) out = Inr r"
proof -
  from lax_returns [OF assms(2,3,4)]
  obtain r where r: "CCentLaxPB_Flow_ComputeResidual k f out = Inr r" ..
  then have d: "CCentLaxPB_Flow_dissipation k f (CCentLaxPB_Flow_central k f out) = Inr r"
    by (simp add: CCentLaxPB_Flow_ComputeResidual_def)
  from assms(1) have n: "nVar k = nDim k" "nDim k \<le> 3"
    by (simp_all add: call_ok_def)
  note sc = sc0_spec [OF assms(3,4)]
  have res: "val_residual r ! iVar =
                val_residual (CCentLaxPB_Flow_central k f out) ! iVar
                + spec_eps0 k f
                  * (DensityInc_i (nDim k) f * V_i f ! (iVar + 1)
                     - DensityInc_j (nDim k) f * V_j f ! (iVar + 1))
                  * stretch * MeanLambda (nDim k) f" if "iVar < nVar k" for iVar
    using lax_dissipation_residual [OF d assms(2) sc lax_central_ok(1) [OF assms(1)] that n]
    by (simp only: Epsilon_0_spec)
  have jac: "val_Jacobian_i r ! a ! a =
                   val_Jacobian_i (CCentLaxPB_Flow_central k f out) ! a ! a
                   + spec_eps0 k f * stretch * MeanLambda (nDim k) f \<and>
                 val_Jacobian_j r ! a ! a =
                   val_Jacobian_j (CCentLaxPB_Flow_central k f out) ! a ! a
                   - spec_eps0 k f * stretch * MeanLambda (nDim k) f"
    if "CCentLaxPB_Flow.implicit k" "a < nVar k" for a
    using that(2) lax_dissipation_jacobians
      [OF d assms(2) sc that(1) lax_central_ok(2,3) [OF assms(1)], of a a, unfolded Epsilon_0_spec]
    by simp
  have lap: "CCentLaxPB_Flow_ComputeResidual k (f\<lparr>Und_Lapl_i := x, Und_Lapl_j := y\<rparr>) out
      = CCentLaxPB_Flow_ComputeResidual k f out"
    by (rule lax_laplacians_not_read)
  from r res jac lap show ?thesis by auto
qed

theorem lax_dissipation_terms_witness:
  "call_ok (CCentLaxPB_Flow 2 2 config_0) face_0 out_0 \<and>
   StretchingFactor 2 (CCentLaxPB_Flow.Param_p (CCentLaxPB_Flow 2 2 config_0)) face_0 = Inr 2 \<and>
   0 < Neighbor_i face_0 \<and> 0 < Neighbor_j face_0 \<and>
   CCentLaxPB_Flow.implicit (CCentLaxPB_Flow 2 2 config_0) \<and>
   (\<exists>r. CCentLaxPB_Flow_ComputeResidual (CCentLaxPB_Flow 2 2 config_0) face_0 out_0 = Inr r \<and>
        val_residual r ! 0 = 215 / 12 \<and>
        val_Jacobian_i r ! 0 ! 0 = 19 / 6 \<and> val_Jacobian_j r ! 0 ! 0 = - 13 / 6)"
proof -
  have s: "StretchingFactor (nDim (CCentLaxPB_Flow 2 2 config_0))
             (CCentLaxPB_Flow.Param_p (CCentLaxPB_Flow 2 2 config_0)) face_0 = Inr 2"
    by (simp add: lax_0_values face_0_stretch)
  have n: "0 < Neighbor_i face_0" "0 < Neighbor_j face_0"
    by (simp_all add: face_0_def)
  have v: "DensityInc_i 2 face_0 = 1" "DensityInc_j 2 face_0 = 1"
    "V_i face_0 ! Suc 0 = 1" "V_j face_0 ! Suc 0 = 0"
    by (simp_all add: DensityInc_i_def DensityInc_j_def face_0_def)
  have i: "(0::nat) < nVar (CCentLaxPB_Flow 2 2 config_0)"
    by (simp add: lax_0_values)
  from lax_dissipation_terms [OF call_ok_lax_0 s n, of "[]" "[]"]
  obtain r where r: "CCentLaxPB_Flow_ComputeResidual (CCentLaxPB_Flow 2 2 config_0) face_0 out_0
      = Inr r"
    and res: "\<forall>iVar. iVar < nVar (CCentLaxPB_Flow 2 2 config_0) \<longrightarrow>
              val_residual r ! iVar =
                val_residual (CCentLaxPB_Flow_central (CCentLaxPB_Flow 2 2 config_0) face_0 out_0) ! iVar
                + spec_eps0 (CCentLaxPB_Flow 2 2 config_0) face_0
                  * (DensityInc_i (nDim (CCentLaxPB_Flow 2 2 config_0)) face_0 * V_i face_0 ! (iVar + 1)
                     - DensityInc_j (nDim (CCentLaxPB_Flow 2 2 config_0)) face_0 * V_j face_0 ! (iVar + 1))
                  * 2 * MeanLambda (nDim (CCentLaxPB_Flow 2 2 config_0)) face_0"
    and jac: "CCentLaxPB_Flow.implicit (CCentLaxPB_Flow 2 2 config_0) \<longrightarrow>
              (\<forall>a. a < nVar (CCentLaxPB_Flow 2 2 config_0) \<longrightarrow>
                 val_Jacobian_i r ! a ! a =
                   val_Jacobian_i (CCentLaxPB_Flow_central (CCentLaxPB_Flow 2 2 config_0) face_0 out_0) ! a ! a
                   + spec_eps0 (CCentLaxPB_Flow 2 2 config_0) face_0 * 2
                     * MeanLambda (nDim (CCentLaxPB_Flow 2 2 config_0)) face_0 \<and>
                 val_Jacobian_j r ! a ! a =
                   val_Jacobian_j (CCentLaxPB_Flow_central (CCentLaxPB_Flow 2 2 config_0) face_0 out_0) ! a ! a
                   - spec_eps0 (CCentLaxPB_Flow 2 2 config_0) face_0 * 2
                     * MeanLambda (nDim (CCentLaxPB_Flow 2 2 config_0)) face_0)"
    by blast
  from res [rule_format, OF i] have r0: "val_residual r ! 0 = 215 / 12"
    by (simp add: lax_0_values lax_0_central face_0_lambda v)
  from jac [rule_format, OF lax_0_values(3) i] have j0: "val_Jacobian_i r ! 0 ! 0 = 19 / 6"
    "val_Jacobian_j r ! 0 ! 0 = - 13 / 6"
    by (simp_all add: lax_0_values lax_0_central_jacobian face_0_lambda)
  from r r0 j0 show ?thesis
    by (simp add: call_ok_lax_0 lax_0_values face_0_stretch n)
qed

section \<open>Doubling the normal\<close>

lemma double_normal_fields [simp]:
  "V_i (double_normal f) = V_i f" "V_j (double_normal f) = V_j f"
  "U_i (double_normal f) = U_i f" "U_j (double_normal f) = U_j f"
  "Und_Lapl_i (double_normal f) = Und_Lapl_i f" "Und_Lapl_j (double_normal f) = Und_Lapl_j f"
  "Sensor_i (double_normal f) = Sensor_i f" "Sensor_j (double_normal f) = Sensor_j f"
  "Lambda_i (double_normal f) = Lambda_i f" "Lambda_j (double_normal f) = Lambda_j f"
  "Neighbor_i (double_normal f) = Neighbor_i f" "Neighbor_j (double_normal f) = Neighbor_j f"
  "length (Normal (double_normal f)) = length (Normal f)"
  by (simp_all add: double_normal_def)

lemma double_normal_nth:
  "d < length (Normal f) \<Longrightarrow> Normal (double_normal f) ! d = 2 * Normal f ! d"
  by (simp add: double_normal_def)

lemma double_normal_state [simp]:
  "Velocity_i n (double_normal f) = Velocity_i n f"
  "Velocity_j n (double_normal f) = Velocity_j n f"
  "MeanVelocity n (double_normal f) = MeanVelocity n f"
  "DensityInc_i n (double_normal f) = DensityInc_i n f"
  "DensityInc_j n (double_normal f) = DensityInc_j n f"
  "MeanDensity n (double_normal f) = MeanDensity n f"
  "MeanPressure (double_normal f) = MeanPressure f"
  by (simp_all add: Velocity_i_def Velocity_j_def MeanVelocity_def DensityInc_i_def
        DensityInc_j_def MeanDensity_def MeanPressure_def Pressure_i_def Pressure_j_def)

lemma double_normal_sum:
  assumes "n \<le> length (Normal f)"
  shows "(\<Sum>d<n. c d * Normal (double_normal f) ! d) = 2 * (\<Sum>d<n. c d * Normal f ! d)"
proof -
  have "(\<Sum>d<n. c d * Normal (double_normal f) ! d) = (\<Sum>d<n. 2 * (c d * Normal f ! d))"
    using assms by (intro sum.cong) (simp_all add: double_normal_nth)
  then show ?thesis
    by (simp add: sum_distrib_left)
qed

lemma double_normal_call_ok: "call_ok k f out \<Longrightarrow> call_ok k (double_normal f) out"
  by (auto simp add: call_ok_def)

lemma double_normal_Face_Flux:
  assumes "n \<le> length (Normal f)"
  shows "Face_Flux n (double_normal f) = 2 * Face_Flux n f"
proof -
  have "Face_Flux n (double_normal f) =
      MeanDensity n f *
        (\<Sum>d<n. 0.5 * (V_i f ! (d + 1) + V_j f ! (d + 1)) * Normal (double_normal f) ! d)"
    by (simp only: Face_Flux_sum double_normal_state double_normal_fields)
  also have "\<dots> =
      MeanDensity n f * (2 * (\<Sum>d<n. 0.5 * (V_i f ! (d + 1) + V_j f ! (d + 1)) * Normal f ! d))"
    by (simp only: double_normal_sum [OF assms])
  also have "\<dots> = 2 * Face_Flux n f"
    by (simp only: Face_Flux_sum mult.left_commute)
  finally show ?thesis .
qed

lemma double_normal_ProjVelocity:
  assumes "n \<le> length (Normal f)"
  shows "ProjVelocity_i n (double_normal f) = 2 * ProjVelocity_i n f"
    and "ProjVelocity_j n (double_normal f) = 2 * ProjVelocity_j n f"
  using assms by (simp_all add: ProjVelocity_i_sum ProjVelocity_j_sum double_normal_sum)

lemma double_normal_MeanLambda:
  "n \<le> length (Normal f) \<Longrightarrow> MeanLambda n (double_normal f) = 2 * MeanLambda n f"
  by (simp add: MeanLambda_def Local_Lambda_i_def Local_Lambda_j_def double_normal_ProjVelocity
        abs_mult)

lemma double_normal_flux:
  assumes "n \<le> length (Normal f)" and "a < n"
  shows "GetInviscidPBProjFlux n d v p (Normal (double_normal f)) ! a =
           2 * GetInviscidPBProjFlux n d v p (Normal f) ! a"
proof -
  from assms have a: "a < length (Normal f)"
    by simp
  show ?thesis
    unfolding GetInviscidPBProjFlux_entry [OF assms(2)] double_normal_sum [OF assms(1)]
      double_normal_nth [OF a]
    by (simp add: algebra_simps)
qed

lemma double_normal_jac:
  assumes "n \<le> length (Normal f)" and "a < n" and "b < n" and "mat_ok n J" and "mat_ok n J'"
  shows "GetInviscidPBProjJac n d v (Normal (double_normal f)) sc J ! a ! b =
           2 * GetInviscidPBProjJac n d v (Normal f) sc J' ! a ! b"
proof -
  from assms have b: "b < length (Normal f)"
    by simp
  show ?thesis
    unfolding GetInviscidPBProjJac_entry [OF assms(4,2,3)]
      GetInviscidPBProjJac_entry [OF assms(5,2,3)] double_normal_sum [OF assms(1)]
      double_normal_nth [OF b]
    by (simp add: algebra_simps)
qed

lemma upwind_jacobian_entry:
  assumes "call_ok k f out" and "CUpwPB_Flow.implicit k" and "a < nVar k" and "b < nVar k"
  shows "val_Jacobian_i (CUpwPB_Flow_ComputeResidual k f out) ! a ! b =
           (if Face_Flux (nDim k) f > 0
            then 1 * DensityInc_i (nDim k) f *
                   ((if a = b then (\<Sum>i<nDim k. Velocity_i (nDim k) f ! i * Normal f ! i) else 0)
                    + Velocity_i (nDim k) f ! a * Normal f ! b)
            else 0)"
    and "val_Jacobian_j (CUpwPB_Flow_ComputeResidual k f out) ! a ! b =
           (if Face_Flux (nDim k) f > 0 then 0
            else 1 * DensityInc_j (nDim k) f *
                   ((if a = b then (\<Sum>i<nDim k. Velocity_j (nDim k) f ! i * Normal f ! i) else 0)
                    + Velocity_j (nDim k) f ! a * Normal f ! b))"
proof -
  from assms(1) have n: "nVar k = nDim k"
    and i: "mat_ok (nDim k) (val_Jacobian_i out)" and j: "mat_ok (nDim k) (val_Jacobian_j out)"
    by (auto simp add: call_ok_def)
  from assms(3,4) n have ab: "a < nDim k" "b < nDim k"
    by simp_all
  note zi = mat_ok_assign [OF i, of "\<lambda>i j. 0"]
  note zj = mat_ok_assign [OF j, of "\<lambda>i j. 0"]
  show "val_Jacobian_i (CUpwPB_Flow_ComputeResidual k f out) ! a ! b =
           (if Face_Flux (nDim k) f > 0
            then 1 * DensityInc_i (nDim k) f *
                   ((if a = b then (\<Sum>i<nDim k. Velocity_i (nDim k) f ! i * Normal f ! i) else 0)
                    + Velocity_i (nDim k) f ! a * Normal f ! b)
            else 0)"
    using assms(2) ab i
    by (simp add: CUpwPB_Flow_ComputeResidual_def Let_def n GetInviscidPBProjJac_entry [OF zi ab]
          assign_entry del: Velocity_i_nth)
  show "val_Jacobian_j (CUpwPB_Flow_ComputeResidual k f out) ! a ! b =
           (if Face_Flux (nDim k) f > 0 then 0
            else 1 * DensityInc_j (nDim k) f *
                   ((if a = b then (\<Sum>i<nDim k. Velocity_j (nDim k) f ! i * Normal f ! i) else 0)
                    + Velocity_j (nDim k) f ! a * Normal f ! b))"
    using assms(2) ab j
    by (simp add: CUpwPB_Flow_ComputeResidual_def Let_def n GetInviscidPBProjJac_entry [OF zj ab]
          assign_entry del: Velocity_j_nth)
qed

lemma upwind_doubling:
  assumes "call_ok k f out"
  shows "iVar < nVar k \<Longrightarrow>
           val_residual (CUpwPB_Flow_ComputeResidual k (double_normal f) out) ! iVar =
             2 * val_residual (CUpwPB_Flow_ComputeResidual k f out) ! iVar"
    and "CUpwPB_Flow.implicit k \<Longrightarrow> a < nVar k \<Longrightarrow> b < nVar k \<Longrightarrow>
           val_Jacobian_i (CUpwPB_Flow_ComputeResidual k (double_normal f) out) ! a ! b =
             2 * val_Jacobian_i (CUpwPB_Flow_ComputeResidual k f out) ! a ! b \<and>
           val_Jacobian_j (CUpwPB_Flow_ComputeResidual k (double_normal f) out) ! a ! b =
             2 * val_Jacobian_j (CUpwPB_Flow_ComputeResidual k f out) ! a ! b"
proof -
  from assms have len: "nVar k \<le> length (val_residual out)" and nl: "nDim k \<le> length (Normal f)"
    by (simp_all add: call_ok_def)
  note ok2 = double_normal_call_ok [OF assms]
  show "val_residual (CUpwPB_Flow_ComputeResidual k (double_normal f) out) ! iVar =
             2 * val_residual (CUpwPB_Flow_ComputeResidual k f out) ! iVar" if "iVar < nVar k"
    using that len nl
    by (simp add: upwind_residual_entry double_normal_Face_Flux)
  show "val_Jacobian_i (CUpwPB_Flow_ComputeResidual k (double_normal f) out) ! a ! b =
             2 * val_Jacobian_i (CUpwPB_Flow_ComputeResidual k f out) ! a ! b \<and>
           val_Jacobian_j (CUpwPB_Flow_ComputeResidual k (double_normal f) out) ! a ! b =
             2 * val_Jacobian_j (CUpwPB_Flow_ComputeResidual k f out) ! a ! b"
    if h: "CUpwPB_Flow.implicit k" "a < nVar k" "b < nVar k"
  proof -
    from h(3) assms have b: "b < length (Normal f)"
      by (simp add: call_ok_def)
    show ?thesis
      unfolding upwind_jacobian_entry [OF assms h] upwind_jacobian_entry [OF ok2 h]
        double_normal_Face_Flux [OF nl] double_normal_state double_normal_sum [OF nl]
        double_normal_nth [OF b]
      by (simp add: algebra_simps)
  qed
qed

lemma pressure_doubling:
  assumes "nDim k \<le> length (fst out)" and "nDim k \<le> length (Normal f)" and "d < nDim k"
  shows "fst (CPressureSource_ComputeResidual k (double_normal f) out) ! d =
           2 * fst (CPressureSource_ComputeResidual k f out) ! d"
  using assms
  by (simp add: CPressureSource_ComputeResidual_def nth_for_upto_assign double_normal_nth)

lemma double_normal_lambda_fields [simp]:
  "V_i (double_normal_lambda f) = V_i f" "V_j (double_normal_lambda f) = V_j f"
  "U_i (double_normal_lambda f) = U_i f" "U_j (double_normal_lambda f) = U_j f"
  "Und_Lapl_i (double_normal_lambda f) = Und_Lapl_i f"
  "Und_Lapl_j (double_normal_lambda f) = Und_Lapl_j f"
  "Sensor_i (double_normal_lambda f) = Sensor_i f" "Sensor_j (double_normal_lambda f) = Sensor_j f"
  "Lambda_i (double_normal_lambda f) = 2 * Lambda_i f"
  "Lambda_j (double_normal_lambda f) = 2 * Lambda_j f"
  "Neighbor_i (double_normal_lambda f) = Neighbor_i f"
  "Neighbor_j (double_normal_lambda f) = Neighbor_j f"
  "Normal (double_normal_lambda f) = Normal (double_normal f)"
  by (simp_all add: double_normal_lambda_def)

lemma double_normal_lambda_state [simp]:
  "Velocity_i n (double_normal_lambda f) = Velocity_i n f"
  "Velocity_j n (double_normal_lambda f) = Velocity_j n f"
  "MeanVelocity n (double_normal_lambda f) = MeanVelocity n f"
  "DensityInc_i n (double_normal_lambda f) = DensityInc_i n f"
  "DensityInc_j n (double_normal_lambda f) = DensityInc_j n f"
  "MeanDensity n (double_normal_lambda f) = MeanDensity n f"
  "MeanPressure (double_normal_lambda f) = MeanPressure f"
  "Lax_U_i n (double_normal_lambda f) = Lax_U_i n f"
  "Lax_U_j n (double_normal_lambda f) = Lax_U_j n f"
  "sc2 (double_normal_lambda f) = sc2 f" "sc0 (double_normal_lambda f) = sc0 f"
  "Epsilon_2 kj (double_normal_lambda f) sc = Epsilon_2 kj f sc"
  "Epsilon_4 kj (double_normal_lambda f) sc = Epsilon_4 kj f sc"
  by (simp_all add: Velocity_i_def Velocity_j_def MeanVelocity_def DensityInc_i_def
        DensityInc_j_def MeanDensity_def MeanPressure_def Pressure_i_def Pressure_j_def
        Lax_U_i_def Lax_U_j_def sc2_def sc0_def Epsilon_2_def Epsilon_4_def)

lemma double_normal_lambda_call_ok:
  "call_ok k f out \<Longrightarrow> call_ok k (double_normal_lambda f) out"
  by (auto simp add: call_ok_def)

lemma double_normal_lambda_MeanLambda:
  assumes "n \<le> length (Normal f)"
  shows "MeanLambda n (double_normal_lambda f) = 2 * MeanLambda n f"
proof -
  have "MeanLambda n (double_normal_lambda f) = MeanLambda n (double_normal f)"
    by (simp add: MeanLambda_def Local_Lambda_i_def Local_Lambda_j_def ProjVelocity_i_def
          ProjVelocity_j_def)
  with assms show ?thesis
    by (simp only: double_normal_MeanLambda)
qed

lemma double_normal_lambda_stretch:
  assumes "n \<le> length (Normal f)"
  shows "StretchingFactor n p (double_normal_lambda f) = StretchingFactor n p f"
  unfolding StretchingFactor_eq double_normal_lambda_MeanLambda [OF assms]
    double_normal_lambda_fields
  by simp

lemma jst_central_lambda:
  "CCentJSTPB_Flow_central k (double_normal_lambda f) out
     = CCentJSTPB_Flow_central k (double_normal f) out"
  unfolding CCentJSTPB_Flow_central_def Let_def by (simp cong: if_cong)

lemma lax_central_lambda:
  "CCentLaxPB_Flow_central k (double_normal_lambda f) out
     = CCentLaxPB_Flow_central k (double_normal f) out"
  unfolding CCentLaxPB_Flow_central_def Let_def by (simp cong: if_cong)

lemma jst_central_doubling:
  assumes "call_ok k f out"
  shows "iVar < nVar k \<Longrightarrow>
           val_residual (CCentJSTPB_Flow_central k (double_normal f) out) ! iVar =
             2 * val_residual (CCentJSTPB_Flow_central k f out) ! iVar"
    and "CCentJSTPB_Flow.implicit k \<Longrightarrow> a < nVar k \<Longrightarrow> b < nVar k \<Longrightarrow>
           val_Jacobian_i (CCentJSTPB_Flow_central k (double_normal f) out) ! a ! b =
             2 * val_Jacobian_i (CCentJSTPB_Flow_central k f out) ! a ! b \<and>
           val_Jacobian_j (CCentJSTPB_Flow_central k (double_normal f) out) ! a ! b =
             2 * val_Jacobian_j (CCentJSTPB_Flow_central k f out) ! a ! b"
proof -
  from assms have len: "nVar k \<le> length (val_residual out)" and nl: "nDim k \<le> length (Normal f)"
    and n: "nVar k = nDim k"
    by (simp_all add: call_ok_def)
  note ok2 = double_normal_call_ok [OF assms]
  show "val_residual (CCentJSTPB_Flow_central k (double_normal f) out) ! iVar =
             2 * val_residual (CCentJSTPB_Flow_central k f out) ! iVar" if "iVar < nVar k"
    using that len n
    by (simp add: jst_central_residual nth_for_upto_assign double_normal_flux [OF nl])
  show "val_Jacobian_i (CCentJSTPB_Flow_central k (double_normal f) out) ! a ! b =
             2 * val_Jacobian_i (CCentJSTPB_Flow_central k f out) ! a ! b \<and>
           val_Jacobian_j (CCentJSTPB_Flow_central k (double_normal f) out) ! a ! b =
             2 * val_Jacobian_j (CCentJSTPB_Flow_central k f out) ! a ! b"
    if h: "CCentJSTPB_Flow.implicit k" "a < nVar k" "b < nVar k"
  proof -
    from h(3) assms have b: "b < length (Normal f)"
      by (simp add: call_ok_def)
    show ?thesis
      unfolding jst_central_jacobian_entry [OF assms h] jst_central_jacobian_entry [OF ok2 h]
        double_normal_state double_normal_sum [OF nl] double_normal_nth [OF b]
      by (simp add: algebra_simps)
  qed
qed

lemma lax_central_doubling:
  assumes "call_ok k f out"
  shows "iVar < nVar k \<Longrightarrow>
           val_residual (CCentLaxPB_Flow_central k (double_normal f) out) ! iVar =
             2 * val_residual (CCentLaxPB_Flow_central k f out) ! iVar"
    and "CCentLaxPB_Flow.implicit k \<Longrightarrow> a < nVar k \<Longrightarrow> b < nVar k \<Longrightarrow>
           val_Jacobian_i (CCentLaxPB_Flow_central k (double_normal f) out) ! a ! b =
             2 * val_Jacobian_i (CCentLaxPB_Flow_central k f out) ! a ! b \<and>
           val_Jacobian_j (CCentLaxPB_Flow_central k (double_normal f) out) ! a ! b =
             2 * val_Jacobian_j (CCentLaxPB_Flow_central k f out) ! a ! b"
proof -
  from assms have len: "nVar k \<le> length (val_residual out)" and nl: "nDim k \<le> length (Normal f)"
    and n: "nVar k = nDim k"
    by (simp_all add: call_ok_def)
  note ok2 = double_normal_call_ok [OF assms]
  show "val_residual (CCentLaxPB_Flow_central k (double_normal f) out) ! iVar =
             2 * val_residual (CCentLaxPB_Flow_central k f out) ! iVar" if "iVar < nVar k"
    using that len n
    by (simp add: lax_central_residual nth_for_upto_assign double_normal_flux [OF nl])
  show "val_Jacobian_i (CCentLaxPB_Flow_central k (double_normal f) out) ! a ! b =
             2 * val_Jacobian_i (CCentLaxPB_Flow_central k f out) ! a ! b \<and>
           val_Jacobian_j (CCentLaxPB_Flow_central k (double_normal f) out) ! a ! b =
             2 * val_Jacobian_j (CCentLaxPB_Flow_central k f out) ! a ! b"
    if h: "CCentLaxPB_Flow.implicit k" "a < nVar k" "b < nVar k"
  proof -
    from h(3) assms have b: "b < length (Normal f)"
      by (simp add: call_ok_def)
    show ?thesis
      unfolding lax_central_jacobian_entry [OF assms h] lax_central_jacobian_entry [OF ok2 h]
        double_normal_state double_normal_sum [OF nl] double_normal_nth [OF b]
      by (simp add: algebra_simps)
  qed
qed

lemma jst_doubling:
  assumes ok: "call_ok k f out"
      and s: "StretchingFactor (nDim k) (CCentJSTPB_Flow.Param_p k) f = Inr stretch"
      and ni: "0 < Neighbor_i f" and nj: "0 < Neighbor_j f"
  shows "\<exists>r r2. CCentJSTPB_Flow_ComputeResidual k f out = Inr r \<and>
           CCentJSTPB_Flow_ComputeResidual k (double_normal_lambda f) out = Inr r2 \<and>
           (\<forall>iVar. iVar < nVar k \<longrightarrow> val_residual r2 ! iVar = 2 * val_residual r ! iVar) \<and>
           (CCentJSTPB_Flow.implicit k \<longrightarrow>
              (\<forall>a b. a < nVar k \<longrightarrow> b < nVar k \<longrightarrow>
                 val_Jacobian_i r2 ! a ! b = 2 * val_Jacobian_i r ! a ! b \<and>
                 val_Jacobian_j r2 ! a ! b = 2 * val_Jacobian_j r ! a ! b))"
proof -
  let ?g = "double_normal_lambda f"
  let ?c = "CCentJSTPB_Flow_central k f out"
  let ?c2 = "CCentJSTPB_Flow_central k (double_normal f) out"
  from ok have nl: "nDim k \<le> length (Normal f)"
    by (simp_all add: call_ok_def)
  note ok2 = double_normal_call_ok [OF ok]
  have s2: "StretchingFactor (nDim k) (CCentJSTPB_Flow.Param_p k) ?g = Inr stretch"
    by (simp only: double_normal_lambda_stretch [OF nl] s)
  from ni nj have n2: "0 < Neighbor_i ?g" "0 < Neighbor_j ?g"
    by simp_all
  have ml: "MeanLambda (nDim k) ?g = 2 * MeanLambda (nDim k) f"
    by (rule double_normal_lambda_MeanLambda [OF nl])
  note sc = sc2_spec [OF ni nj]
  have sc': "sc2 ?g = Inr (spec_sc f)"
    by (simp add: sc)
  from jst_returns [OF s ni nj]
  obtain r where r: "CCentJSTPB_Flow_ComputeResidual k f out = Inr r" ..
  from jst_returns [OF s2 n2]
  obtain r2 where r2: "CCentJSTPB_Flow_ComputeResidual k ?g out = Inr r2" ..
  from r have d: "CCentJSTPB_Flow_dissipation k f ?c = Inr r"
    by (simp add: CCentJSTPB_Flow_ComputeResidual_def)
  from r2 have d2: "CCentJSTPB_Flow_dissipation k ?g ?c2 = Inr r2"
    by (simp add: CCentJSTPB_Flow_ComputeResidual_def jst_central_lambda)
  have res: "val_residual r2 ! iVar = 2 * val_residual r ! iVar" if i: "iVar < nVar k" for iVar
    unfolding jst_dissipation_residual [OF d s sc jst_central_ok(1) [OF ok] i]
      jst_dissipation_residual [OF d2 s2 sc' jst_central_ok(1) [OF ok2] i]
      jst_central_doubling(1) [OF ok i] ml double_normal_lambda_fields
      double_normal_lambda_state
    by (simp add: algebra_simps)
  have jac: "val_Jacobian_i r2 ! a ! b = 2 * val_Jacobian_i r ! a ! b \<and>
             val_Jacobian_j r2 ! a ! b = 2 * val_Jacobian_j r ! a ! b"
    if h: "CCentJSTPB_Flow.implicit k" "a < nVar k" "b < nVar k" for a b
    unfolding jst_dissipation_jacobians [OF d s sc h(1) jst_central_ok(2,3) [OF ok]]
      jst_dissipation_jacobians [OF d2 s2 sc' h(1) jst_central_ok(2,3) [OF ok2]]
      conjunct1 [OF jst_central_doubling(2) [OF ok h]]
      conjunct1 [OF jst_central_doubling(2) [OF ok h(1,2,2)]]
      conjunct2 [OF jst_central_doubling(2) [OF ok h]]
      conjunct2 [OF jst_central_doubling(2) [OF ok h(1,2,2)]]
      ml double_normal_lambda_fields double_normal_lambda_state
    by (simp add: algebra_simps)
  from r r2 res jac show ?thesis
    by blast
qed

lemma lax_doubling:
  assumes ok: "call_ok k f out"
      and s: "StretchingFactor (nDim k) (CCentLaxPB_Flow.Param_p k) f = Inr stretch"
      and ni: "0 < Neighbor_i f" and nj: "0 < Neighbor_j f"
  shows "\<exists>r r2. CCentLaxPB_Flow_ComputeResidual k f out = Inr r \<and>
           CCentLaxPB_Flow_ComputeResidual k (double_normal_lambda f) out = Inr r2 \<and>
           (\<forall>iVar. iVar < nVar k \<longrightarrow> val_residual r2 ! iVar = 2 * val_residual r ! iVar) \<and>
           (CCentLaxPB_Flow.implicit k \<longrightarrow>
              (\<forall>a b. a < nVar k \<longrightarrow> b < nVar k \<longrightarrow>
                 val_Jacobian_i r2 ! a ! b = 2 * val_Jacobian_i r ! a ! b \<and>
                 val_Jacobian_j r2 ! a ! b = 2 * val_Jacobian_j r ! a ! b))"
proof -
  let ?g = "double_normal_lambda f"
  let ?c = "CCentLaxPB_Flow_central k f out"
  let ?c2 = "CCentLaxPB_Flow_central k (double_normal f) out"
  from ok have nl: "nDim k \<le> length (Normal f)" and nv: "nVar k = nDim k" "nDim k \<le> 3"
    by (simp_all add: call_ok_def)
  note ok2 = double_normal_call_ok [OF ok]
  have s2: "StretchingFactor (nDim k) (CCentLaxPB_Flow.Param_p k) ?g = Inr stretch"
    by (simp only: double_normal_lambda_stretch [OF nl] s)
  from ni nj have n2: "0 < Neighbor_i ?g" "0 < Neighbor_j ?g"
    by simp_all
  have ml: "MeanLambda (nDim k) ?g = 2 * MeanLambda (nDim k) f"
    by (rule double_normal_lambda_MeanLambda [OF nl])
  note sc = sc0_spec [OF ni nj]
  have sc': "sc0 ?g = Inr (spec_sc f)"
    by (simp add: sc)
  from lax_returns [OF s ni nj]
  obtain r where r: "CCentLaxPB_Flow_ComputeResidual k f out = Inr r" ..
  from lax_returns [OF s2 n2]
  obtain r2 where r2: "CCentLaxPB_Flow_ComputeResidual k ?g out = Inr r2" ..
  from r have d: "CCentLaxPB_Flow_dissipation k f ?c = Inr r"
    by (simp add: CCentLaxPB_Flow_ComputeResidual_def)
  from r2 have d2: "CCentLaxPB_Flow_dissipation k ?g ?c2 = Inr r2"
    by (simp add: CCentLaxPB_Flow_ComputeResidual_def lax_central_lambda)
  have res: "val_residual r2 ! iVar = 2 * val_residual r ! iVar" if i: "iVar < nVar k" for iVar
    unfolding lax_dissipation_residual [OF d s sc lax_central_ok(1) [OF ok] i nv]
      lax_dissipation_residual [OF d2 s2 sc' lax_central_ok(1) [OF ok2] i nv]
      lax_central_doubling(1) [OF ok i] ml double_normal_lambda_fields
      double_normal_lambda_state
    by (simp add: algebra_simps)
  have jac: "val_Jacobian_i r2 ! a ! b = 2 * val_Jacobian_i r ! a ! b \<and>
             val_Jacobian_j r2 ! a ! b = 2 * val_Jacobian_j r ! a ! b"
    if h: "CCentLaxPB_Flow.implicit k" "a < nVar k" "b < nVar k" for a b
    unfolding lax_dissipation_jacobians [OF d s sc h(1) lax_central_ok(2,3) [OF ok]]
      lax_dissipation_jacobians [OF d2 s2 sc' h(1) lax_central_ok(2,3) [OF ok2]]
      conjunct1 [OF lax_central_doubling(2) [OF ok h]]
      conjunct1 [OF lax_central_doubling(2) [OF ok h(1,2,2)]]
      conjunct2 [OF lax_central_doubling(2) [OF ok h]]
      conjunct2 [OF lax_central_doubling(2) [OF ok h(1,2,2)]]
      ml double_normal_lambda_fields double_normal_lambda_state
    by (simp add: algebra_simps)
  from r r2 res jac show ?thesis
    by blast
qed

lemma for_upto_2: "for_upto 2 body s = body (Suc 0) (body 0 s)"
  by (simp add: numeral_2_eq_2)

lemma face_0_flux_1:
  "GetInviscidPBProjFlux 2 (MeanDensity 2 face_0) (MeanVelocity 2 face_0) (MeanPressure face_0)
     (Normal face_0) ! Suc 0 = 0"
  by (simp add: GetInviscidPBProjFlux_entry sum_upto_2 MeanDensity_def DensityInc_i_def
        DensityInc_j_def MeanPressure_def Pressure_i_def Pressure_j_def)
     (simp add: face_0_def)

lemma lax_explicit_values:
  "nDim (CCentLaxPB_Flow 2 2 config_explicit) = 2" "nVar (CCentLaxPB_Flow 2 2 config_explicit) = 2"
  "\<not> CCentLaxPB_Flow.implicit (CCentLaxPB_Flow 2 2 config_explicit)"
  "CCentLaxPB_Flow.Param_p (CCentLaxPB_Flow 2 2 config_explicit) = 3 / 10"
  "Epsilon_0 (CCentLaxPB_Flow 2 2 config_explicit) 2 = 4 / 3"
  by (simp_all add: CCentLaxPB_Flow_def config_explicit_def config_0_def Epsilon_0_def)

lemma face_0_Lax_U: "Lax_U_i 2 face_0 = [1, 0, 0]" "Lax_U_j 2 face_0 = [0, 0, 0]"
  by (simp_all add: Lax_U_i_def Lax_U_j_def for_upto_2 DensityInc_i_def DensityInc_j_def)
     (simp_all add: face_0_def)

lemma face_0_sc0: "sc0 face_0 = Inr 2"
  by (simp add: sc0_eq sc2_eq face_0_def)

lemma face_0_length: "(2::nat) \<le> length (Normal face_0)"
  by (simp add: face_0_def)

lemma lax_explicit_residual:
  assumes "StretchingFactor 2 (3 / 10) g = Inr stretch" and "sc0 g = Inr 2"
      and "Lax_U_i 2 g = [1, 0, 0]" and "Lax_U_j 2 g = [0, 0, 0]"
      and "GetInviscidPBProjFlux 2 (MeanDensity 2 g) (MeanVelocity 2 g) (MeanPressure g)
             (Normal g) ! 0 = x"
      and "GetInviscidPBProjFlux 2 (MeanDensity 2 g) (MeanVelocity 2 g) (MeanPressure g)
             (Normal g) ! Suc 0 = 0"
  shows "map_sum id val_residual
           (CCentLaxPB_Flow_ComputeResidual (CCentLaxPB_Flow 2 2 config_explicit) g out_0)
         = Inr [x + 4 / 3 * stretch * MeanLambda 2 g, 0]"
proof -
  let ?k = "CCentLaxPB_Flow 2 2 config_explicit"
  have c: "val_residual (CCentLaxPB_Flow_central ?k g out_0) = [x, 0]"
    by (simp add: lax_central_residual lax_explicit_values for_upto_2 out_0_def assms(5,6))
  from assms(1) have s: "StretchingFactor (nDim ?k) (CCentLaxPB_Flow.Param_p ?k) g = Inr stretch"
    by (simp add: lax_explicit_values)
  show ?thesis
    unfolding CCentLaxPB_Flow_ComputeResidual_def lax_dissipation_value [OF s assms(2)]
    by (simp add: lax_explicit_values c for_upto_2 assms(3,4))
qed

text \<open>
  C7, as the code has it. Replacing the face normal \<open>N\<close> by \<open>2 N\<close>, all other inputs held
  fixed, doubles every component of the residual of the upwind kernel and of the
  pressure source, and in implicit mode every entry of both upwind Jacobians (the
  pressure source writes no Jacobian). For the JST and the Lax kernel the same holds
  when the members \<^verbatim>\<open>Lambda_i\<close> and \<^verbatim>\<open>Lambda_j\<close> are doubled together with \<open>N\<close>, for
  every call whose stretching factor is defined and whose neighbour counts are
  positive: both calls return, and every residual component and, in implicit mode,
  every entry of both Jacobians is doubled.
\<close>

theorem normal_doubling:
  "(call_ok ku f out \<longrightarrow>
      (\<forall>iVar. iVar < nVar ku \<longrightarrow>
         val_residual (CUpwPB_Flow_ComputeResidual ku (double_normal f) out) ! iVar =
           2 * val_residual (CUpwPB_Flow_ComputeResidual ku f out) ! iVar) \<and>
      (CUpwPB_Flow.implicit ku \<longrightarrow>
         (\<forall>a b. a < nVar ku \<longrightarrow> b < nVar ku \<longrightarrow>
            val_Jacobian_i (CUpwPB_Flow_ComputeResidual ku (double_normal f) out) ! a ! b =
              2 * val_Jacobian_i (CUpwPB_Flow_ComputeResidual ku f out) ! a ! b \<and>
            val_Jacobian_j (CUpwPB_Flow_ComputeResidual ku (double_normal f) out) ! a ! b =
              2 * val_Jacobian_j (CUpwPB_Flow_ComputeResidual ku f out) ! a ! b))) \<and>
   (nDim kp \<le> length (fst po) \<and> nDim kp \<le> length (Normal f) \<longrightarrow>
      (\<forall>d. d < nDim kp \<longrightarrow>
         fst (CPressureSource_ComputeResidual kp (double_normal f) po) ! d =
           2 * fst (CPressureSource_ComputeResidual kp f po) ! d) \<and>
      snd (CPressureSource_ComputeResidual kp (double_normal f) po) = snd po) \<and>
   (call_ok kj f out \<and>
    StretchingFactor (nDim kj) (CCentJSTPB_Flow.Param_p kj) f = Inr sj \<and>
    0 < Neighbor_i f \<and> 0 < Neighbor_j f \<longrightarrow>
      (\<exists>r r2. CCentJSTPB_Flow_ComputeResidual kj f out = Inr r \<and>
         CCentJSTPB_Flow_ComputeResidual kj (double_normal_lambda f) out = Inr r2 \<and>
         (\<forall>iVar. iVar < nVar kj \<longrightarrow> val_residual r2 ! iVar = 2 * val_residual r ! iVar) \<and>
         (CCentJSTPB_Flow.implicit kj \<longrightarrow>
            (\<forall>a b. a < nVar kj \<longrightarrow> b < nVar kj \<longrightarrow>
               val_Jacobian_i r2 ! a ! b = 2 * val_Jacobian_i r ! a ! b \<and>
               val_Jacobian_j r2 ! a ! b = 2 * val_Jacobian_j r ! a ! b)))) \<and>
   (call_ok kl f out \<and>
    StretchingFactor (nDim kl) (CCentLaxPB_Flow.Param_p kl) f = Inr sl \<and>
    0 < Neighbor_i f \<and> 0 < Neighbor_j f \<longrightarrow>
      (\<exists>r r2. CCentLaxPB_Flow_ComputeResidual kl f out = Inr r \<and>
         CCentLaxPB_Flow_ComputeResidual kl (double_normal_lambda f) out = Inr r2 \<and>
         (\<forall>iVar. iVar < nVar kl \<longrightarrow> val_residual r2 ! iVar = 2 * val_residual r ! iVar) \<and>
         (CCentLaxPB_Flow.implicit kl \<longrightarrow>
            (\<forall>a b. a < nVar kl \<longrightarrow> b < nVar kl \<longrightarrow>
               val_Jacobian_i r2 ! a ! b = 2 * val_Jacobian_i r ! a ! b \<and>
               val_Jacobian_j r2 ! a ! b = 2 * val_Jacobian_j r ! a ! b))))"
proof (intro conjI impI)
  assume ok: "call_ok ku f out"
  show "\<forall>iVar. iVar < nVar ku \<longrightarrow>
         val_residual (CUpwPB_Flow_ComputeResidual ku (double_normal f) out) ! iVar =
           2 * val_residual (CUpwPB_Flow_ComputeResidual ku f out) ! iVar"
    using upwind_doubling(1) [OF ok] by blast
  assume "CUpwPB_Flow.implicit ku"
  then show "\<forall>a b. a < nVar ku \<longrightarrow> b < nVar ku \<longrightarrow>
            val_Jacobian_i (CUpwPB_Flow_ComputeResidual ku (double_normal f) out) ! a ! b =
              2 * val_Jacobian_i (CUpwPB_Flow_ComputeResidual ku f out) ! a ! b \<and>
            val_Jacobian_j (CUpwPB_Flow_ComputeResidual ku (double_normal f) out) ! a ! b =
              2 * val_Jacobian_j (CUpwPB_Flow_ComputeResidual ku f out) ! a ! b"
    using upwind_doubling(2) [OF ok] by blast
next
  assume "nDim kp \<le> length (fst po) \<and> nDim kp \<le> length (Normal f)"
  then show "\<forall>d. d < nDim kp \<longrightarrow>
         fst (CPressureSource_ComputeResidual kp (double_normal f) po) ! d =
           2 * fst (CPressureSource_ComputeResidual kp f po) ! d"
    using pressure_doubling [of kp po f] by blast
next
  show "snd (CPressureSource_ComputeResidual kp (double_normal f) po) = snd po"
    by (simp add: CPressureSource_ComputeResidual_def)
next
  assume "call_ok kj f out \<and>
    StretchingFactor (nDim kj) (CCentJSTPB_Flow.Param_p kj) f = Inr sj \<and>
    0 < Neighbor_i f \<and> 0 < Neighbor_j f"
  then show "\<exists>r r2. CCentJSTPB_Flow_ComputeResidual kj f out = Inr r \<and>
         CCentJSTPB_Flow_ComputeResidual kj (double_normal_lambda f) out = Inr r2 \<and>
         (\<forall>iVar. iVar < nVar kj \<longrightarrow> val_residual r2 ! iVar = 2 * val_residual r ! iVar) \<and>
         (CCentJSTPB_Flow.implicit kj \<longrightarrow>
            (\<forall>a b. a < nVar kj \<longrightarrow> b < nVar kj \<longrightarrow>
               val_Jacobian_i r2 ! a ! b = 2 * val_Jacobian_i r ! a ! b \<and>
               val_Jacobian_j r2 ! a ! b = 2 * val_Jacobian_j r ! a ! b))"
    using jst_doubling [of kj f out sj] by blast
next
  assume "call_ok kl f out \<and>
    StretchingFactor (nDim kl) (CCentLaxPB_Flow.Param_p kl) f = Inr sl \<and>
    0 < Neighbor_i f \<and> 0 < Neighbor_j f"
  then show "\<exists>r r2. CCentLaxPB_Flow_ComputeResidual kl f out = Inr r \<and>
         CCentLaxPB_Flow_ComputeResidual kl (double_normal_lambda f) out = Inr r2 \<and>
         (\<forall>iVar. iVar < nVar kl \<longrightarrow> val_residual r2 ! iVar = 2 * val_residual r ! iVar) \<and>
         (CCentLaxPB_Flow.implicit kl \<longrightarrow>
            (\<forall>a b. a < nVar kl \<longrightarrow> b < nVar kl \<longrightarrow>
               val_Jacobian_i r2 ! a ! b = 2 * val_Jacobian_i r ! a ! b \<and>
               val_Jacobian_j r2 ! a ! b = 2 * val_Jacobian_j r ! a ! b))"
    using lax_doubling [of kl f out sl] by blast
qed

theorem normal_doubling_witness:
  "call_ok (CUpwPB_Flow 2 2 config_0) face_0 out_0 \<and>
   val_residual (CUpwPB_Flow_ComputeResidual (CUpwPB_Flow 2 2 config_0) (double_normal face_0) out_0) ! 0
     = 2 * val_residual (CUpwPB_Flow_ComputeResidual (CUpwPB_Flow 2 2 config_0) face_0 out_0) ! 0 \<and>
   fst (CPressureSource_ComputeResidual (CPressureSource 2 2 config_0) (double_normal face_0)
          ([7, 7], [])) ! 0
     = 2 * fst (CPressureSource_ComputeResidual (CPressureSource 2 2 config_0) face_0 ([7, 7], [])) ! 0 \<and>
   call_ok (CCentLaxPB_Flow 2 2 config_0) face_0 out_0 \<and>
   StretchingFactor 2 (CCentLaxPB_Flow.Param_p (CCentLaxPB_Flow 2 2 config_0)) face_0 = Inr 2 \<and>
   0 < Neighbor_i face_0 \<and> 0 < Neighbor_j face_0 \<and>
   (\<exists>r r2. CCentLaxPB_Flow_ComputeResidual (CCentLaxPB_Flow 2 2 config_0) face_0 out_0 = Inr r \<and>
      CCentLaxPB_Flow_ComputeResidual (CCentLaxPB_Flow 2 2 config_0) (double_normal_lambda face_0) out_0
        = Inr r2 \<and>
      val_residual r2 ! 0 = 2 * val_residual r ! 0 \<and>
      val_Jacobian_i r2 ! 0 ! 0 = 2 * val_Jacobian_i r ! 0 ! 0)"
proof -
  note t = normal_doubling
    [where ku = "CUpwPB_Flow 2 2 config_0" and f = face_0 and out = out_0
       and kp = "CPressureSource 2 2 config_0" and po = "([7, 7], [])"
       and kl = "CCentLaxPB_Flow 2 2 config_0" and sl = 2
       and kj = "CCentJSTPB_Flow 2 2 config_0" and sj = 2]
  have s: "StretchingFactor (nDim (CCentLaxPB_Flow 2 2 config_0))
             (CCentLaxPB_Flow.Param_p (CCentLaxPB_Flow 2 2 config_0)) face_0 = Inr 2"
    by (simp add: lax_0_values face_0_stretch)
  have n: "0 < Neighbor_i face_0" "0 < Neighbor_j face_0"
    by (simp_all add: face_0_def)
  have p: "nDim (CPressureSource 2 2 config_0) \<le> length (fst ([7, 7::real], [] :: real list list)) \<and>
     nDim (CPressureSource 2 2 config_0) \<le> length (Normal face_0)"
    by (simp add: CPressureSource_def face_0_def)
  have u: "(0::nat) < nVar (CUpwPB_Flow 2 2 config_0)" "(0::nat) < nDim (CPressureSource 2 2 config_0)"
    "(0::nat) < nVar (CCentLaxPB_Flow 2 2 config_0)"
    by (simp_all add: CUpwPB_Flow_def CPressureSource_def lax_0_values)
  from t call_ok_0 u(1)
  have a: "val_residual (CUpwPB_Flow_ComputeResidual (CUpwPB_Flow 2 2 config_0) (double_normal face_0) out_0) ! 0
     = 2 * val_residual (CUpwPB_Flow_ComputeResidual (CUpwPB_Flow 2 2 config_0) face_0 out_0) ! 0"
    by blast
  from t p u(2)
  have b: "fst (CPressureSource_ComputeResidual (CPressureSource 2 2 config_0) (double_normal face_0)
          ([7, 7], [])) ! 0
     = 2 * fst (CPressureSource_ComputeResidual (CPressureSource 2 2 config_0) face_0 ([7, 7], [])) ! 0"
    by blast
  from t call_ok_lax_0 s n lax_0_values(3) u(3)
  have c: "\<exists>r r2. CCentLaxPB_Flow_ComputeResidual (CCentLaxPB_Flow 2 2 config_0) face_0 out_0 = Inr r \<and>
      CCentLaxPB_Flow_ComputeResidual (CCentLaxPB_Flow 2 2 config_0) (double_normal_lambda face_0) out_0
        = Inr r2 \<and>
      val_residual r2 ! 0 = 2 * val_residual r ! 0 \<and>
      val_Jacobian_i r2 ! 0 ! 0 = 2 * val_Jacobian_i r ! 0 ! 0"
    by blast
  from a b c show ?thesis
    by (simp add: call_ok_0 call_ok_lax_0 face_0_stretch n)
qed

text \<open>
  C7 as stated fails for the Lax kernel: on the concrete face, with an explicit time
  integration, the first residual component is \<open>215/12\<close>; with the normal doubled and
  \<^verbatim>\<open>Lambda_i\<close>, \<^verbatim>\<open>Lambda_j\<close> held fixed it is \<open>61/2 + 16/3 (1/2)^0.3\<close>, which is not
  \<open>215/6\<close>.
\<close>

theorem normal_doubling_counterexample:
  "map_sum id val_residual
     (CCentLaxPB_Flow_ComputeResidual (CCentLaxPB_Flow 2 2 config_explicit) face_0 out_0)
     = Inr [215 / 12, 0] \<and>
   map_sum id val_residual
     (CCentLaxPB_Flow_ComputeResidual (CCentLaxPB_Flow 2 2 config_explicit)
        (double_normal face_0) out_0)
     = Inr [61 / 2 + 16 / 3 * (1 / 2) powr (3 / 10), 0] \<and>
   61 / 2 + 16 / 3 * (1 / 2) powr (3 / 10) \<noteq> 2 * (215 / 12 :: real)"
proof -
  let ?g = "double_normal face_0"
  let ?phi = "(1 / 2 :: real) powr (3 / 10)"
  have a: "map_sum id val_residual
     (CCentLaxPB_Flow_ComputeResidual (CCentLaxPB_Flow 2 2 config_explicit) face_0 out_0)
     = Inr [215 / 12, 0]"
    using lax_explicit_residual
      [OF face_0_stretch face_0_sc0 face_0_Lax_U face_0_flux face_0_flux_1]
    by (simp add: face_0_lambda)
  have ml: "MeanLambda 2 ?g = 2"
    by (simp add: double_normal_MeanLambda [OF face_0_length] face_0_lambda)
  have lam: "Lambda_i ?g = 4" "Lambda_j ?g = 4"
    by (simp_all add: face_0_def)
  have pos: "0 < ?phi"
    by simp
  then have q: "4 * ?phi * ?phi / (?phi + ?phi) = 2 * ?phi"
    by (simp add: field_simps)
  have st: "StretchingFactor 2 (3 / 10) ?g = Inr (2 * ?phi)"
    unfolding StretchingFactor_eq ml lam using q by simp
  have sc: "sc0 ?g = Inr 2"
    by (simp add: sc0_eq sc2_eq face_0_def)
  have u: "Lax_U_i 2 ?g = [1, 0, 0]" "Lax_U_j 2 ?g = [0, 0, 0]"
    using face_0_Lax_U by (simp_all add: Lax_U_i_def Lax_U_j_def)
  have f0: "GetInviscidPBProjFlux 2 (MeanDensity 2 ?g) (MeanVelocity 2 ?g) (MeanPressure ?g)
              (Normal ?g) ! 0 = 61 / 2"
    using double_normal_flux [OF face_0_length, of 0] face_0_flux by simp
  have f1: "GetInviscidPBProjFlux 2 (MeanDensity 2 ?g) (MeanVelocity 2 ?g) (MeanPressure ?g)
              (Normal ?g) ! Suc 0 = 0"
    using double_normal_flux [OF face_0_length, of "Suc 0"] face_0_flux_1 by simp
  have b: "map_sum id val_residual
     (CCentLaxPB_Flow_ComputeResidual (CCentLaxPB_Flow 2 2 config_explicit) ?g out_0)
     = Inr [61 / 2 + 16 / 3 * ?phi, 0]"
    using lax_explicit_residual [OF st sc u f0 f1]
    by (simp add: ml)
  have "?phi \<noteq> 1"
    by simp
  then have c: "61 / 2 + 16 / 3 * ?phi \<noteq> 2 * (215 / 12 :: real)"
    by simp
  from a b c show ?thesis
    by blast
qed

end
